theory Spec2Isabelle
  imports Complex_Main "HOL-Library.AList" "HOL-Library.Monad_Syntax"
begin

section \<open>Data model\<close>

text \<open>
  The service of \<^verbatim>\<open>api.py\<close> keeps its state in a handful of files and in three
  module globals. Files hold bytes; a JSON object or a one-row DataFrame is an ordered
  list of named scalars. Floats are idealised as reals; the values a pandas column can
  hold beyond numbers and strings (NaN, the infinities, a parsed date) are constructors
  of their own.
\<close>

type_synonym bytes = string

datatype val = IntV int | FloatV real | StrV string | NaN | PosInf | NegInf | TimestampV int

type_synonym row = "(string \<times> val) list"

text \<open>The pydantic classes \<^verbatim>\<open>HouseData\<close> and \<^verbatim>\<open>FeedbackData(HouseData)\<close>.\<close>

record HouseData =
  id_num :: int
  date :: string
  bedrooms :: int
  bathrooms :: real
  sqft_living :: int
  sqft_lot :: int
  floors :: real
  waterfront :: int
  view :: int
  condition :: int
  grade :: int
  sqft_above :: int
  sqft_basement :: int
  yr_built :: int
  yr_renovated :: int
  zipcode :: int
  lat :: real
  long :: real
  Mean_Income :: real
  Education_Bachelors_or_Higher :: real
  Population_Density :: real

record FeedbackData = HouseData +
  ground_truth_price :: real

text \<open>\<^verbatim>\<open>data.dict()\<close>: the declared fields, in declaration order.\<close>

definition HouseData_dict :: "'a HouseData_scheme \<Rightarrow> row" where
  "HouseData_dict d =
     [(''id'', IntV (id_num d)), (''date'', StrV (date d)),
      (''bedrooms'', IntV (bedrooms d)), (''bathrooms'', FloatV (bathrooms d)),
      (''sqft_living'', IntV (sqft_living d)), (''sqft_lot'', IntV (sqft_lot d)),
      (''floors'', FloatV (floors d)), (''waterfront'', IntV (waterfront d)),
      (''view'', IntV (view d)), (''condition'', IntV (condition d)),
      (''grade'', IntV (grade d)), (''sqft_above'', IntV (sqft_above d)),
      (''sqft_basement'', IntV (sqft_basement d)), (''yr_built'', IntV (yr_built d)),
      (''yr_renovated'', IntV (yr_renovated d)), (''zipcode'', IntV (zipcode d)),
      (''lat'', FloatV (lat d)), (''long'', FloatV (long d)),
      (''Mean_Income'', FloatV (Mean_Income d)),
      (''Education_Bachelors_or_Higher'', FloatV (Education_Bachelors_or_Higher d)),
      (''Population_Density'', FloatV (Population_Density d))]"

definition FeedbackData_dict :: "FeedbackData \<Rightarrow> row" where
  "FeedbackData_dict d =
     HouseData_dict d @ [(''ground_truth_price'', FloatV (ground_truth_price d))]"

text \<open>
  Every file-system call of the source that can raise is a site; the environment says
  which sites fault. A faulting call raises and leaves the files as they were.
\<close>

datatype io_site =
    MkFeedbackDir | WriteFeedback string
  | WriteTemp | ReplaceDataset | RestoreDataset | RemoveTemp
  | MkArchiveDir | RenameFeedback string
  | MkModelsDir | DumpModel | WriteMetrics

datatype exn = OSError io_site | FileNotFoundError | FitError

datatype 'a outcome = Returned 'a | Raised exn

datatype arith_op = Add | Sub

text \<open>
  What the source leaves to pandas, json, joblib, scikit-learn and xgboost is a parameter:
  the CSV codec, the JSON codec, the artifact loader, the fitted model's schema and
  prediction, the fitting procedure, the date parser, the coercions pydantic applies
  to the fields of a request body, and what numpy does with an integer cell that does
  not fit int64 (such a column is uint64 or an object column, and the result depends on
  the installed version). \<open>None\<close> is a call that raises.
\<close>

record ('df, 'm) env =
  faults :: "io_site \<Rightarrow> bool"
  read_csv :: "bytes \<Rightarrow> 'df option"
  to_csv :: "'df \<Rightarrow> bytes"
  concat_rows :: "'df \<Rightarrow> row list \<Rightarrow> 'df"
  json_load :: "bytes \<Rightarrow> row option"
  json_dump :: "row \<Rightarrow> bytes"
  joblib_load :: "bytes \<Rightarrow> 'm option"
  feature_names_in :: "'m \<Rightarrow> string list option"
  predict :: "'m \<Rightarrow> row \<Rightarrow> real option"
  fit :: "bytes \<Rightarrow> bytes \<Rightarrow> (bytes \<times> row) option"
  to_datetime :: "string \<Rightarrow> val option"
  as_int :: "val \<Rightarrow> int option"
  as_float :: "val \<Rightarrow> real option"
  as_str :: "val \<Rightarrow> string option"
  wide_int_op :: "arith_op \<Rightarrow> int \<Rightarrow> int \<Rightarrow> val option"

text \<open>
  The files under the fixed paths of the source and the globals \<^verbatim>\<open>model\<close>,
  \<^verbatim>\<open>model_features\<close>, \<^verbatim>\<open>model_metrics\<close>. A directory is the list of its
  regular files in \<^verbatim>\<open>os.listdir\<close> order; \<open>None\<close> is a path that does not exist.
\<close>

record 'm state =
  dataset_file :: "bytes option"
  temp_file :: "bytes option"
  feedback_dir :: "(string \<times> bytes) list option"
  archive_dir :: "(string \<times> bytes) list option"
  model_file :: "bytes option"
  metrics_file :: "bytes option"
  train_processed_file :: "bytes option"
  test_processed_file :: "bytes option"
  model :: "'m option"
  model_features :: "string list option"
  model_metrics :: row

definition ERROR_THRESHOLD_MAPE :: real where
  "ERROR_THRESHOLD_MAPE = 15 / 100"

section \<open>Feedback store: \<^verbatim>\<open>receive_feedback\<close>\<close>

record timestamp =
  year :: nat
  month :: nat
  day :: nat
  hour :: nat
  minute :: nat
  second :: nat
  nanosecond :: nat

definition digit_char :: "nat \<Rightarrow> char" where
  "digit_char n = ''0123456789'' ! (n mod 10)"

fun digits10 :: "nat \<Rightarrow> string" where
  "digits10 n = (if n < 10 then [digit_char n] else digits10 (n div 10) @ [digit_char n])"

definition str_int :: "int \<Rightarrow> string" where
  "str_int i = (if i < 0 then ''-'' @ digits10 (nat (- i)) else digits10 (nat i))"

definition zero_pad :: "nat \<Rightarrow> string \<Rightarrow> string" where
  "zero_pad w s = replicate (w - length s) CHR ''0'' @ s"

text \<open>\<^verbatim>\<open>strftime("%Y%m%d%H%M%S")\<close>: nothing below the second is printed.\<close>

definition strftime :: "timestamp \<Rightarrow> string" where
  "strftime t =
     zero_pad 4 (digits10 (year t)) @ zero_pad 2 (digits10 (month t)) @
     zero_pad 2 (digits10 (day t)) @ zero_pad 2 (digits10 (hour t)) @
     zero_pad 2 (digits10 (minute t)) @ zero_pad 2 (digits10 (second t))"

definition feedback_file_name :: "timestamp \<Rightarrow> int \<Rightarrow> string" where
  "feedback_file_name now i = ''feedback_'' @ strftime now @ ''_'' @ str_int i @ ''.json''"

datatype http_detail =
    ModelNotLoaded | InternalError | FeedbackSaveError | PerformanceError | Unhandled

datatype http_error = HTTPException nat http_detail

text \<open>
  \<^verbatim>\<open>receive_feedback\<close>: create the directory if needed, then \<^verbatim>\<open>open(file_name, 'w')\<close>
  and dump the record. Opening for writing replaces an existing file of that name.
\<close>

definition receive_feedback ::
  "('df, 'm) env \<Rightarrow> timestamp \<Rightarrow> FeedbackData \<Rightarrow> 'm state \<Rightarrow> (http_error + string) \<times> 'm state"
where
  "receive_feedback e now data st =
     (if faults e MkFeedbackDir then (Inl (HTTPException 500 Unhandled), st)
      else
        let files = (case feedback_dir st of None \<Rightarrow> [] | Some fs \<Rightarrow> fs);
            st1 = st\<lparr>feedback_dir := Some files\<rparr>;
            file_name = feedback_file_name now (id_num data)
        in if faults e (WriteFeedback file_name)
           then (Inl (HTTPException 500 FeedbackSaveError), st1)
           else (Inr (''data/feedback_local/'' @ file_name),
                 st1\<lparr>feedback_dir :=
                       Some (AList.update file_name (json_dump e (FeedbackData_dict data)) files)\<rparr>))"


section \<open>Feature transform: \<^verbatim>\<open>engineer_features\<close> on a one-row frame\<close>

text \<open>
  Column arithmetic as pandas does it on numeric cells: integers that fit int64 stay
  int64 under \<open>+\<close> and \<open>-\<close> and wrap around silently, wider integers are left to
  the environment, anything else is a float, NaN and the infinities propagate, and a
  string or timestamp operand raises.
\<close>

datatype xnum = Fin real | PInf | NInf | NaNx

fun xnum_of :: "val \<Rightarrow> xnum option" where
  "xnum_of (IntV i) = Some (Fin (of_int i))"
| "xnum_of (FloatV r) = Some (Fin r)"
| "xnum_of NaN = Some NaNx"
| "xnum_of PosInf = Some PInf"
| "xnum_of NegInf = Some NInf"
| "xnum_of (StrV s) = None"
| "xnum_of (TimestampV y) = None"

fun val_of_xnum :: "xnum \<Rightarrow> val" where
  "val_of_xnum (Fin r) = FloatV r"
| "val_of_xnum PInf = PosInf"
| "val_of_xnum NInf = NegInf"
| "val_of_xnum NaNx = NaN"

fun xneg :: "xnum \<Rightarrow> xnum" where
  "xneg (Fin r) = Fin (- r)"
| "xneg PInf = NInf"
| "xneg NInf = PInf"
| "xneg NaNx = NaNx"

fun xadd :: "xnum \<Rightarrow> xnum \<Rightarrow> xnum" where
  "xadd NaNx y = NaNx"
| "xadd x NaNx = NaNx"
| "xadd (Fin a) (Fin b) = Fin (a + b)"
| "xadd PInf NInf = NaNx"
| "xadd NInf PInf = NaNx"
| "xadd PInf y = PInf"
| "xadd NInf y = NInf"
| "xadd (Fin a) y = y"

fun xdiv :: "xnum \<Rightarrow> xnum \<Rightarrow> xnum" where
  "xdiv NaNx y = NaNx"
| "xdiv x NaNx = NaNx"
| "xdiv (Fin a) (Fin b) =
     (if b = 0 then (if a = 0 then NaNx else if 0 < a then PInf else NInf) else Fin (a / b))"
| "xdiv (Fin a) y = Fin 0"
| "xdiv x (Fin b) = (if 0 \<le> b then x else xneg x)"
| "xdiv x y = NaNx"

definition in_int64 :: "int \<Rightarrow> bool" where
  "in_int64 i = (- (2 ^ 63) \<le> i \<and> i < 2 ^ 63)"

definition wrap64 :: "int \<Rightarrow> int" where
  "wrap64 i = (i + 2 ^ 63) mod 2 ^ 64 - 2 ^ 63"

definition int_arith :: "('df, 'm) env \<Rightarrow> arith_op \<Rightarrow> int \<Rightarrow> int \<Rightarrow> val option" where
  "int_arith e op x y =
     (if in_int64 x \<and> in_int64 y
      then Some (IntV (wrap64 (case op of Add \<Rightarrow> x + y | Sub \<Rightarrow> x - y)))
      else wide_int_op e op x y)"

definition vadd :: "('df, 'm) env \<Rightarrow> val \<Rightarrow> val \<Rightarrow> val option" where
  "vadd e a b =
     (case (a, b) of
        (IntV x, IntV y) \<Rightarrow> int_arith e Add x y
      | _ \<Rightarrow> (case (xnum_of a, xnum_of b) of
                (Some x, Some y) \<Rightarrow> Some (val_of_xnum (xadd x y))
              | _ \<Rightarrow> None))"

definition vsub :: "('df, 'm) env \<Rightarrow> val \<Rightarrow> val \<Rightarrow> val option" where
  "vsub e a b =
     (case (a, b) of
        (IntV x, IntV y) \<Rightarrow> int_arith e Sub x y
      | _ \<Rightarrow> (case (xnum_of a, xnum_of b) of
                (Some x, Some y) \<Rightarrow> Some (val_of_xnum (xadd x (xneg y)))
              | _ \<Rightarrow> None))"

definition vdiv :: "val \<Rightarrow> val \<Rightarrow> val option" where
  "vdiv a b =
     (case (xnum_of a, xnum_of b) of
        (Some x, Some y) \<Rightarrow> Some (val_of_xnum (xdiv x y))
      | _ \<Rightarrow> None)"

text \<open>\<^verbatim>\<open>np.log1p\<close>.\<close>

definition log1p :: "val \<Rightarrow> val option" where
  "log1p v =
     (case xnum_of v of
        None \<Rightarrow> None
      | Some (Fin r) \<Rightarrow>
          Some (if - 1 < r then FloatV (ln (1 + r)) else if r = - 1 then NegInf else NaN)
      | Some PInf \<Rightarrow> Some PosInf
      | Some _ \<Rightarrow> Some NaN)"

text \<open>\<^verbatim>\<open>df['yr_renovated'] == 0\<close> never raises; \<^verbatim>\<open>df['yr_renovated'] > 0\<close> raises on a string.\<close>

definition veq0 :: "val \<Rightarrow> bool" where
  "veq0 v = (case v of IntV i \<Rightarrow> i = 0 | FloatV r \<Rightarrow> r = 0 | _ \<Rightarrow> False)"

definition vgt0 :: "val \<Rightarrow> bool option" where
  "vgt0 v =
     (case xnum_of v of
        None \<Rightarrow> None
      | Some (Fin r) \<Rightarrow> Some (0 < r)
      | Some PInf \<Rightarrow> Some True
      | Some _ \<Rightarrow> Some False)"

text \<open>\<^verbatim>\<open>np.where(c, a, b)\<close>: the chosen cell, as a float when the other branch is one.\<close>

definition where_val :: "bool \<Rightarrow> val \<Rightarrow> val \<Rightarrow> val" where
  "where_val c a b =
     (let chosen = (if c then a else b); other = (if c then b else a)
      in case (chosen, other) of
           (IntV i, IntV j) \<Rightarrow> IntV i
         | (IntV i, _) \<Rightarrow> FloatV (of_int i)
         | _ \<Rightarrow> chosen)"

text \<open>
  The \<^verbatim>\<open>try\<close> around the date: a string cell is cut at the first \<^verbatim>\<open>T\<close> and parsed;
  any other cell has no \<^verbatim>\<open>.str\<close> and raises. The bare \<^verbatim>\<open>except\<close> and the
  \<^verbatim>\<open>isna\<close> test both fall back to 2015.
\<close>

definition date_features :: "('df, 'm) env \<Rightarrow> val \<Rightarrow> row \<Rightarrow> row \<times> int" where
  "date_features e d df =
     (case d of
        StrV s \<Rightarrow>
          (case to_datetime e (takeWhile (\<lambda>c. c \<noteq> CHR ''T'') s) of
             None \<Rightarrow> (df, 2015)
           | Some ts \<Rightarrow>
               (AList.update ''date_dt'' ts df, (case ts of TimestampV y \<Rightarrow> y | _ \<Rightarrow> 2015)))
      | _ \<Rightarrow> (df, 2015))"

definition engineer_features :: "('df, 'm) env \<Rightarrow> row \<Rightarrow> row option" where
  "engineer_features e df0 = do {
     df1 \<leftarrow> (case map_of df0 ''price'' of
               None \<Rightarrow> Some df0
             | Some p \<Rightarrow> map_option (\<lambda>v. AList.update ''log_price'' v df0) (log1p p));
     let (df2, analysis_year) =
           (case map_of df1 ''date'' of
              None \<Rightarrow> (df1, 2015)
            | Some d \<Rightarrow> date_features e d df1);
     built \<leftarrow> map_of df2 ''yr_built'';
     house_age \<leftarrow> vsub e (IntV analysis_year) built;
     let df3 = AList.update ''house_age'' house_age df2;
     renovated \<leftarrow> map_of df3 ''yr_renovated'';
     since \<leftarrow> vsub e (IntV analysis_year) renovated;
     let df4 = AList.update ''time_since_renovation''
                 (where_val (veq0 renovated) house_age since) df3;
     was \<leftarrow> vgt0 renovated;
     let df5 = AList.update ''was_renovated'' (IntV (if was then 1 else 0)) df4;
     beds \<leftarrow> map_of df5 ''bedrooms'';
     baths \<leftarrow> map_of df5 ''bathrooms'';
     total_rooms \<leftarrow> vadd e beds baths;
     let df6 = AList.update ''total_rooms'' total_rooms df5;
     living \<leftarrow> map_of df6 ''sqft_living'';
     denom \<leftarrow> vadd e total_rooms (FloatV (1 / 10 ^ 6));
     per_room \<leftarrow> vdiv living denom;
     Some (AList.update ''sqft_per_room'' per_room df6)
   }"

section \<open>Predictor service\<close>

text \<open>\<^verbatim>\<open>.reindex(columns=model_features).fillna(0)\<close>.\<close>

definition fillna0 :: "val \<Rightarrow> val" where
  "fillna0 v = (if v = NaN then FloatV 0 else v)"

definition reindex :: "string list option \<Rightarrow> row \<Rightarrow> row" where
  "reindex cols df =
     (case cols of
        None \<Rightarrow> map (\<lambda>(c, v). (c, fillna0 v)) df
      | Some cs \<Rightarrow>
          map (\<lambda>c. (c, case map_of df c of None \<Rightarrow> FloatV 0 | Some v \<Rightarrow> fillna0 v)) cs)"

text \<open>\<^verbatim>\<open>np.expm1\<close> on the idealised reals.\<close>

definition expm1 :: "real \<Rightarrow> real" where
  "expm1 y = exp y - 1"

text \<open>
  The four lines shared by \<^verbatim>\<open>predict_price\<close> and \<^verbatim>\<open>check_model_performance\<close>:
  transform, reindex, \<^verbatim>\<open>model.predict\<close>, \<^verbatim>\<open>expm1\<close>. \<open>None\<close> is any exception.
\<close>

definition predict_row :: "('df, 'm) env \<Rightarrow> 'm state \<Rightarrow> row \<Rightarrow> real option" where
  "predict_row e st input_data_dict = do {
     df_processed \<leftarrow> engineer_features e input_data_dict;
     m \<leftarrow> model st;
     prediction_log \<leftarrow> predict e m (reindex (model_features st) df_processed);
     Some (expm1 prediction_log)
   }"

record prediction =
  predicted_price :: real
  confidence_margin_usd :: val

definition predict_price ::
  "('df, 'm) env \<Rightarrow> 'm state \<Rightarrow> HouseData \<Rightarrow> http_error + prediction"
where
  "predict_price e st data =
     (if model st = None then Inl (HTTPException 500 ModelNotLoaded)
      else case predict_row e st (HouseData_dict data) of
             None \<Rightarrow> Inl (HTTPException 500 InternalError)
           | Some p \<Rightarrow>
               Inr \<lparr>predicted_price = p,
                    confidence_margin_usd =
                      (case map_of (model_metrics st) ''mae_usd_formatted'' of
                         None \<Rightarrow> StrV ''$ (Erro N/A)''
                       | Some v \<Rightarrow> v)\<rparr>)"

text \<open>
  The request body reaches \<^verbatim>\<open>predict_price\<close> through the declared parameter type
  \<^verbatim>\<open>data: HouseData\<close>: each declared field is looked up and coerced, a missing or
  ill-typed field is a validation error, and a key that is not declared is not looked at.
\<close>

definition validate_HouseData :: "('df, 'm) env \<Rightarrow> (string \<rightharpoonup> val) \<Rightarrow> HouseData option" where
  "validate_HouseData e body = do {
     v1 \<leftarrow> Option.bind (body ''id'') (as_int e);
     v2 \<leftarrow> Option.bind (body ''date'') (as_str e);
     v3 \<leftarrow> Option.bind (body ''bedrooms'') (as_int e);
     v4 \<leftarrow> Option.bind (body ''bathrooms'') (as_float e);
     v5 \<leftarrow> Option.bind (body ''sqft_living'') (as_int e);
     v6 \<leftarrow> Option.bind (body ''sqft_lot'') (as_int e);
     v7 \<leftarrow> Option.bind (body ''floors'') (as_float e);
     v8 \<leftarrow> Option.bind (body ''waterfront'') (as_int e);
     v9 \<leftarrow> Option.bind (body ''view'') (as_int e);
     v10 \<leftarrow> Option.bind (body ''condition'') (as_int e);
     v11 \<leftarrow> Option.bind (body ''grade'') (as_int e);
     v12 \<leftarrow> Option.bind (body ''sqft_above'') (as_int e);
     v13 \<leftarrow> Option.bind (body ''sqft_basement'') (as_int e);
     v14 \<leftarrow> Option.bind (body ''yr_built'') (as_int e);
     v15 \<leftarrow> Option.bind (body ''yr_renovated'') (as_int e);
     v16 \<leftarrow> Option.bind (body ''zipcode'') (as_int e);
     v17 \<leftarrow> Option.bind (body ''lat'') (as_float e);
     v18 \<leftarrow> Option.bind (body ''long'') (as_float e);
     v19 \<leftarrow> Option.bind (body ''Mean_Income'') (as_float e);
     v20 \<leftarrow> Option.bind (body ''Education_Bachelors_or_Higher'') (as_float e);
     v21 \<leftarrow> Option.bind (body ''Population_Density'') (as_float e);
     Some \<lparr>id_num = v1, date = v2, bedrooms = v3, bathrooms = v4, sqft_living = v5,
           sqft_lot = v6, floors = v7, waterfront = v8, view = v9, condition = v10,
           grade = v11, sqft_above = v12, sqft_basement = v13, yr_built = v14,
           yr_renovated = v15, zipcode = v16, lat = v17, long = v18, Mean_Income = v19,
           Education_Bachelors_or_Higher = v20, Population_Density = v21\<rparr>
   }"

definition HouseData_fields :: "string list" where
  "HouseData_fields =
     [''id'', ''date'', ''bedrooms'', ''bathrooms'', ''sqft_living'', ''sqft_lot'', ''floors'',
      ''waterfront'', ''view'', ''condition'', ''grade'', ''sqft_above'', ''sqft_basement'',
      ''yr_built'', ''yr_renovated'', ''zipcode'', ''lat'', ''long'', ''Mean_Income'',
      ''Education_Bachelors_or_Higher'', ''Population_Density'']"

datatype 'a http_reply = ValidationError422 | Handled 'a

definition post_predict ::
  "('df, 'm) env \<Rightarrow> 'm state \<Rightarrow> (string \<rightharpoonup> val) \<Rightarrow> (http_error + prediction) http_reply"
where
  "post_predict e st body =
     (case validate_HouseData e body of
        None \<Rightarrow> ValidationError422
      | Some data \<Rightarrow> Handled (predict_price e st data))"


text \<open>
  \<^verbatim>\<open>load_model_safely\<close>: three assignments inside one \<^verbatim>\<open>try\<close>. Whatever raises,
  the handler overwrites the metrics with a placeholder and reports failure only when
  the global \<^verbatim>\<open>model\<close> is still \<^verbatim>\<open>None\<close>. The placeholder's accented letters are
  written as their UTF-8 bytes.
\<close>

definition metrics_not_found :: row where
  "metrics_not_found =
     [(''mae_usd_formatted'',
       StrV (''$ (M'' @ [CHR 0xC3, CHR 0xA9] @ ''tricas n'' @ [CHR 0xC3, CHR 0xA3] @
             ''o encontradas)''))]"

definition load_handler :: "'m state \<Rightarrow> bool \<times> 'm state" where
  "load_handler st =
     (let st1 = st\<lparr>model_metrics := metrics_not_found\<rparr>
      in if model st1 = None then (False, st1) else (True, st1))"

definition load_model_safely :: "('df, 'm) env \<Rightarrow> 'm state \<Rightarrow> bool \<times> 'm state" where
  "load_model_safely e st =
     (case Option.bind (model_file st) (joblib_load e) of
        None \<Rightarrow> load_handler st
      | Some m \<Rightarrow>
          let st1 = st\<lparr>model := Some m\<rparr>
          in (case feature_names_in e m of
                None \<Rightarrow> load_handler st1
              | Some names \<Rightarrow>
                  let st2 = st1\<lparr>model_features := Some names\<rparr>
                  in (case Option.bind (metrics_file st2) (json_load e) of
                        None \<Rightarrow> load_handler st2
                      | Some metrics \<Rightarrow> (True, st2\<lparr>model_metrics := metrics\<rparr>))))"

section \<open>Trainer: \<^verbatim>\<open>train\<close>\<close>

text \<open>
  \<^verbatim>\<open>train\<close> reads the two processed files; a missing one is logged and the function
  returns \<^verbatim>\<open>None\<close>. Parsing, the hyperparameter search and the test metrics are
  \<open>fit\<close>, which may raise. The artifact is dumped first, the metrics file second.
\<close>

definition train :: "('df, 'm) env \<Rightarrow> 'm state \<Rightarrow> row option outcome \<times> 'm state" where
  "train e st =
     (if faults e MkModelsDir then (Raised (OSError MkModelsDir), st)
      else case (train_processed_file st, test_processed_file st) of
        (Some train_csv, Some test_csv) \<Rightarrow>
          (case fit e train_csv test_csv of
             None \<Rightarrow> (Raised FitError, st)
           | Some (best_model, metrics) \<Rightarrow>
               if faults e DumpModel then (Raised (OSError DumpModel), st)
               else
                 let st1 = st\<lparr>model_file := Some best_model\<rparr>
                 in if faults e WriteMetrics then (Raised (OSError WriteMetrics), st1)
                    else (Returned (Some metrics),
                          st1\<lparr>metrics_file := Some (json_dump e metrics)\<rparr>))
      | _ \<Rightarrow> (Returned None, st))"

section \<open>Performance monitor and retrain cycle\<close>

definition endswith :: "string \<Rightarrow> string \<Rightarrow> bool" where
  "endswith s suf = (length suf \<le> length s \<and> drop (length s - length suf) s = suf)"

definition list_feedback_files :: "(string \<times> bytes) list \<Rightarrow> string list" where
  "list_feedback_files files = filter (\<lambda>f. endswith f ''.json'') (map fst files)"

text \<open>The reading loop: a file that cannot be opened or parsed is logged and skipped.\<close>

definition read_feedback ::
  "('df, 'm) env \<Rightarrow> (string \<times> bytes) list \<Rightarrow> string list \<Rightarrow> row list"
where
  "read_feedback e files names =
     List.map_filter (\<lambda>f. Option.bind (map_of files f) (json_load e)) names"

text \<open>
  \<^verbatim>\<open>sklearn.metrics.mean_absolute_percentage_error\<close>: the mean of
  \<open>|y_pred - y_true| / max(|y_true|, eps)\<close> with the float64 machine epsilon. It
  rejects input that is not a finite number.
\<close>

definition float_eps :: real where
  "float_eps = 1 / 2 ^ 52"

definition mean_absolute_percentage_error :: "real list \<Rightarrow> real list \<Rightarrow> real" where
  "mean_absolute_percentage_error y_true y_pred =
     (\<Sum>(t, p) \<leftarrow> zip y_true y_pred. \<bar>p - t\<bar> / max \<bar>t\<bar> float_eps) / real (length y_true)"

fun numeric :: "val \<Rightarrow> real option" where
  "numeric (IntV i) = Some (of_int i)"
| "numeric (FloatV r) = Some r"
| "numeric v = None"

definition truth_and_prediction ::
  "('df, 'm) env \<Rightarrow> 'm state \<Rightarrow> row \<Rightarrow> (val \<times> real) option"
where
  "truth_and_prediction e st data = do {
     t \<leftarrow> map_of data ''ground_truth_price'';
     p \<leftarrow> predict_row e st data;
     Some (t, p)
   }"

definition evaluate :: "('df, 'm) env \<Rightarrow> 'm state \<Rightarrow> row list \<Rightarrow> real option" where
  "evaluate e st feedback_data = do {
     pairs \<leftarrow> those (map (truth_and_prediction e st) feedback_data);
     y_true \<leftarrow> those (map (\<lambda>(t, p). numeric t) pairs);
     Some (mean_absolute_percentage_error y_true (map snd pairs))
   }"

datatype error_msg = LoadOriginalFailed | NoFeedbackToTrain | ReloadFailed | ExcMessage exn

text \<open>What \<^verbatim>\<open>run_full_retrain_cycle\<close> returns: the trainer's value or an error dict.\<close>

datatype retval = NewMetrics "row option" | ErrorDict error_msg

definition rename_col :: "string \<Rightarrow> string \<Rightarrow> row \<Rightarrow> row" where
  "rename_col old new r = map (\<lambda>(c, v). (if c = old then new else c, v)) r"

text \<open>The archive loop: \<^verbatim>\<open>os.rename\<close> of each listed file, stopping at the first raise.\<close>

fun move_files :: "('df, 'm) env \<Rightarrow> string list \<Rightarrow> 'm state \<Rightarrow> exn option \<times> 'm state" where
  "move_files e [] st = (None, st)"
| "move_files e (f # fs) st =
     (if faults e (RenameFeedback f) then (Some (OSError (RenameFeedback f)), st)
      else case (feedback_dir st, archive_dir st) of
        (Some pending, Some archived) \<Rightarrow>
          (case map_of pending f of
             None \<Rightarrow> (Some FileNotFoundError, st)
           | Some content \<Rightarrow>
               move_files e fs
                 (st\<lparr>feedback_dir := Some (AList.delete f pending),
                     archive_dir := Some (AList.update f content archived)\<rparr>))
      | _ \<Rightarrow> (Some FileNotFoundError, st))"

text \<open>The body of the \<^verbatim>\<open>try\<close>: replace, train, reload, archive.\<close>

definition retrain_try ::
  "('df, 'm) env \<Rightarrow> string list \<Rightarrow> 'm state \<Rightarrow> retval outcome \<times> 'm state"
where
  "retrain_try e feedback_files st =
     (if faults e ReplaceDataset then (Raised (OSError ReplaceDataset), st)
      else if temp_file st = None then (Raised FileNotFoundError, st)
      else
        let st1 = st\<lparr>dataset_file := temp_file st, temp_file := None\<rparr>
        in (case train e st1 of
              (Raised x, st2) \<Rightarrow> (Raised x, st2)
            | (Returned new_metrics, st2) \<Rightarrow>
                (case load_model_safely e st2 of
                   (True, st3) \<Rightarrow>
                     (if faults e MkArchiveDir then (Raised (OSError MkArchiveDir), st3)
                      else
                        let st4 = st3\<lparr>archive_dir :=
                                    Some (case archive_dir st3 of None \<Rightarrow> [] | Some a \<Rightarrow> a)\<rparr>
                        in (case move_files e feedback_files st4 of
                              (Some x, st5) \<Rightarrow> (Raised x, st5)
                            | (None, st5) \<Rightarrow> (Returned (NewMetrics new_metrics), st5)))
                 | (False, st3) \<Rightarrow> (Returned (ErrorDict ReloadFailed), st3))))"

text \<open>
  The \<^verbatim>\<open>finally\<close>: write the frame read at the start back to the dataset path, then
  remove the temporary file if it still exists. A raise here replaces the pending result.
\<close>

definition retrain_finally ::
  "('df, 'm) env \<Rightarrow> 'df \<Rightarrow> retval outcome \<Rightarrow> 'm state \<Rightarrow> retval outcome \<times> 'm state"
where
  "retrain_finally e original_df r st =
     (if faults e RestoreDataset then (Raised (OSError RestoreDataset), st)
      else
        let st1 = st\<lparr>dataset_file := Some (to_csv e original_df)\<rparr>
        in if temp_file st1 = None then (r, st1)
           else if faults e RemoveTemp then (Raised (OSError RemoveTemp), st1)
           else (r, st1\<lparr>temp_file := None\<rparr>))"

definition run_full_retrain_cycle ::
  "('df, 'm) env \<Rightarrow> 'm state \<Rightarrow> retval outcome \<times> 'm state"
where
  "run_full_retrain_cycle e st =
     (case Option.bind (dataset_file st) (read_csv e) of
        None \<Rightarrow> (Returned (ErrorDict LoadOriginalFailed), st)
      | Some original_df \<Rightarrow>
          (case feedback_dir st of
             None \<Rightarrow> (Raised FileNotFoundError, st)
           | Some files \<Rightarrow>
               let feedback_files = list_feedback_files files
               in if feedback_files = [] then (Returned (ErrorDict NoFeedbackToTrain), st)
                  else
                    let feedback_data = read_feedback e files feedback_files;
                        new_data = map (rename_col ''ground_truth_price'' ''price'') feedback_data;
                        updated_df = concat_rows e original_df new_data
                    in if faults e WriteTemp then (Raised (OSError WriteTemp), st)
                       else
                         let st1 = st\<lparr>temp_file := Some (to_csv e updated_df)\<rparr>;
                             (r, st2) = retrain_try e feedback_files st1;
                             caught = (case r of
                                         Raised x \<Rightarrow> Returned (ErrorDict (ExcMessage x))
                                       | Returned v \<Rightarrow> Returned v)
                         in retrain_finally e original_df caught st2))"

datatype message =
    NoFeedbackToCheck | EmptyFeedbackData | RetrainConcluded real | PerformanceStable real

record response =
  retrain_triggered :: bool
  message :: message
  current_mape_pct :: "real option"
  new_metrics :: "retval option"

definition check_model_performance ::
  "('df, 'm) env \<Rightarrow> 'm state \<Rightarrow> (http_error + response) \<times> 'm state"
where
  "check_model_performance e st =
     (case feedback_dir st of
        None \<Rightarrow>
          (Inr \<lparr>retrain_triggered = False, message = NoFeedbackToCheck,
                current_mape_pct = None, new_metrics = None\<rparr>, st)
      | Some files \<Rightarrow>
          let feedback_files = list_feedback_files files
          in if feedback_files = [] then
               (Inr \<lparr>retrain_triggered = False, message = NoFeedbackToCheck,
                     current_mape_pct = None, new_metrics = None\<rparr>, st)
             else
               let feedback_data = read_feedback e files feedback_files
               in if feedback_data = [] then
                    (Inr \<lparr>retrain_triggered = False, message = EmptyFeedbackData,
                          current_mape_pct = None, new_metrics = None\<rparr>, st)
                  else
                    (case evaluate e st feedback_data of
                       None \<Rightarrow> (Inl (HTTPException 500 PerformanceError), st)
                     | Some current_mape \<Rightarrow>
                         if current_mape > ERROR_THRESHOLD_MAPE then
                           (case run_full_retrain_cycle e st of
                              (Raised x, st') \<Rightarrow> (Inl (HTTPException 500 PerformanceError), st')
                            | (Returned result, st') \<Rightarrow>
                                (Inr \<lparr>retrain_triggered = True,
                                      message = RetrainConcluded current_mape,
                                      current_mape_pct = Some current_mape,
                                      new_metrics = Some result\<rparr>, st'))
                         else
                           (Inr \<lparr>retrain_triggered = False,
                                 message = PerformanceStable current_mape,
                                 current_mape_pct = Some current_mape,
                                 new_metrics = None\<rparr>, st)))"


text \<open>The readable pending records, as both endpoints collect them.\<close>

definition pending_feedback :: "('df, 'm) env \<Rightarrow> 'm state \<Rightarrow> row list" where
  "pending_feedback e st =
     (case feedback_dir st of
        None \<Rightarrow> []
      | Some files \<Rightarrow> read_feedback e files (list_feedback_files files))"

text \<open>The textbook metric the specification names: the mean of \<open>|t - p| / |t|\<close>.\<close>

definition mape_spec :: "real list \<Rightarrow> real list \<Rightarrow> real" where
  "mape_spec y_true y_pred =
     (\<Sum>i < length y_true. \<bar>y_true ! i - y_pred ! i\<bar> / \<bar>y_true ! i\<bar>) / real (length y_true)"

text \<open>The names \<^verbatim>\<open>run_full_retrain_cycle\<close> lists: the \<^verbatim>\<open>.json\<close> files of the directory.\<close>

definition json_files :: "'m state \<Rightarrow> string list" where
  "json_files st = (case feedback_dir st of None \<Rightarrow> [] | Some files \<Rightarrow> list_feedback_files files)"

text \<open>
  A record of the listed directory is kept when it is still pending with its content, or
  gone from the pending directory and in the archive with its content.
\<close>

definition kept :: "(string \<times> bytes) list \<Rightarrow> 'm state \<Rightarrow> bool" where
  "kept pending st =
     (\<forall>(n, c) \<in> set pending.
        (\<exists>p. feedback_dir st = Some p \<and> map_of p n = Some c) \<or>
        (\<exists>p a. feedback_dir st = Some p \<and> map_of p n = None \<and>
               archive_dir st = Some a \<and> map_of a n = Some c))"

section \<open>A small concrete installation\<close>

text \<open>
  A frame is the list of the file's lines. Reading accepts a last line without a
  newline; writing ends every line with one, as \<^verbatim>\<open>to_csv\<close> does. A fitted model is
  its schema (if the estimator recorded one) and a constant log-price.
\<close>

fun lines_of :: "string \<Rightarrow> string \<Rightarrow> string list" where
  "lines_of cur [] = (if cur = [] then [] else [cur])"
| "lines_of cur (c # cs) =
     (if c = CHR 0x0A then cur # lines_of [] cs else lines_of (cur @ [c]) cs)"

definition unlines :: "string list \<Rightarrow> string" where
  "unlines ls = concat (map (\<lambda>l. l @ [CHR 0x0A]) ls)"

datatype toy_model = ToyModel "string list option" real

definition house1 :: FeedbackData where
  "house1 =
     \<lparr>id_num = 7, date = ''20141013T000000'', bedrooms = 3, bathrooms = 1,
      sqft_living = 1180, sqft_lot = 5650, floors = 1, waterfront = 0, view = 0,
      condition = 3, grade = 7, sqft_above = 1180, sqft_basement = 0, yr_built = 1955,
      yr_renovated = 0, zipcode = 98178, lat = 47, long = - 122, Mean_Income = 57321,
      Education_Bachelors_or_Higher = 21, Population_Density = 3774,
      ground_truth_price = 100\<rparr>"

definition house2 :: FeedbackData where
  "house2 = house1\<lparr>ground_truth_price := 0\<rparr>"

definition house3 :: FeedbackData where
  "house3 = house1\<lparr>id_num := 8, bedrooms := 2, ground_truth_price := 120\<rparr>"

definition metrics1 :: row where
  "metrics1 = [(''mae_usd'', FloatV 20000), (''mae_usd_formatted'', StrV ''$20,000.00'')]"

definition metrics2 :: row where
  "metrics2 = [(''mae_usd'', FloatV 15000), (''mae_usd_formatted'', StrV ''$15,000.00'')]"

definition toy_json_load :: "bytes \<Rightarrow> row option" where
  "toy_json_load b =
     (if b = ''{house1}'' then Some (FeedbackData_dict house1)
      else if b = ''{house2}'' then Some (FeedbackData_dict house2)
      else if b = ''{house3}'' then Some (FeedbackData_dict house3)
      else if b = ''{metrics1}'' then Some metrics1
      else if b = ''{metrics2}'' then Some metrics2
      else None)"

definition toy_json_dump :: "row \<Rightarrow> bytes" where
  "toy_json_dump r =
     (if r = FeedbackData_dict house1 then ''{house1}''
      else if r = FeedbackData_dict house2 then ''{house2}''
      else if r = FeedbackData_dict house3 then ''{house3}''
      else if r = metrics1 then ''{metrics1}''
      else if r = metrics2 then ''{metrics2}''
      else ''{}'')"

definition toy_csv_line :: "row \<Rightarrow> string" where
  "toy_csv_line r =
     (case map_of r ''id'' of Some (IntV i) \<Rightarrow> str_int i | _ \<Rightarrow> ''?'')"

definition toy_schema :: "string list" where
  "toy_schema = [''bedrooms'', ''house_age'', ''total_rooms'', ''zip_median'']"

definition toy_joblib_load :: "bytes \<Rightarrow> toy_model option" where
  "toy_joblib_load b =
     (if b = ''model-v1'' then Some (ToyModel (Some toy_schema) 0)
      else if b = ''model-v2'' then Some (ToyModel (Some toy_schema) 1)
      else None)"

definition toy_env :: "(string list, toy_model) env" where
  "toy_env =
     \<lparr>faults = (\<lambda>site. False),
      read_csv = (\<lambda>b. Some (lines_of [] b)),
      to_csv = unlines,
      concat_rows = (\<lambda>df rows. df @ map toy_csv_line rows),
      json_load = toy_json_load,
      json_dump = toy_json_dump,
      joblib_load = toy_joblib_load,
      feature_names_in = (\<lambda>m. case m of ToyModel names y \<Rightarrow> names),
      predict = (\<lambda>m df. case m of ToyModel names y \<Rightarrow> Some y),
      fit = (\<lambda>train_csv test_csv. Some (''model-v2'', metrics2)),
      to_datetime = (\<lambda>s. if s = ''20141013'' then Some (TimestampV 2014) else None),
      as_int = (\<lambda>v. case v of IntV i \<Rightarrow> Some i | _ \<Rightarrow> None),
      as_float = (\<lambda>v. case v of FloatV r \<Rightarrow> Some r | IntV i \<Rightarrow> Some (of_int i) | _ \<Rightarrow> None),
      as_str = (\<lambda>v. case v of StrV s \<Rightarrow> Some s | _ \<Rightarrow> None),
      wide_int_op = (\<lambda>op x y. None)\<rparr>"

text \<open>
  A running service: version 1 is loaded and on disk, the processed training files
  exist, the dataset is a two-line table, and nothing is pending.
\<close>

definition toy_state :: "toy_model state" where
  "toy_state =
     \<lparr>dataset_file = Some (''price'' @ [CHR 0x0A] @ ''1'' @ [CHR 0x0A]),
      temp_file = None,
      feedback_dir = Some [],
      archive_dir = None,
      model_file = Some ''model-v1'',
      metrics_file = Some ''{metrics1}'',
      train_processed_file = Some ''train'',
      test_processed_file = Some ''test'',
      model = Some (ToyModel (Some toy_schema) 0),
      model_features = Some toy_schema,
      model_metrics = metrics1\<rparr>"

definition noon :: timestamp where
  "noon = \<lparr>year = 2025, month = 3, day = 9, hour = 12, minute = 0, second = 5,
           nanosecond = 0\<rparr>"

text \<open>Later within the same second.\<close>

definition noon_later :: timestamp where
  "noon_later = noon\<lparr>nanosecond := 900000000\<rparr>"

text \<open>The same service with one record pending: far off the model, or exactly on it.\<close>

definition toy_pending1 :: "toy_model state" where
  "toy_pending1 =
     toy_state\<lparr>feedback_dir := Some [(''feedback_20250309120005_7.json'', ''{house1}'')]\<rparr>"

definition toy_pending2 :: "toy_model state" where
  "toy_pending2 =
     toy_state\<lparr>feedback_dir := Some [(''feedback_20250309120005_7.json'', ''{house2}'')]\<rparr>"

text \<open>Where a cycle that commits leaves the service with \<open>house1\<close> pending.\<close>

definition toy_committed :: "toy_model state" where
  "toy_committed =
     toy_state\<lparr>feedback_dir := Some [],
               archive_dir := Some [(''feedback_20250309120005_7.json'', ''{house1}'')],
               model_file := Some ''model-v2'', metrics_file := Some ''{metrics2}'',
               model := Some (ToyModel (Some toy_schema) 1),
               model_metrics := metrics2\<rparr>"

text \<open>A request body, its validated record, its engineered row, and two undeclared keys.\<close>

definition toy_house :: HouseData where
  "toy_house =
     \<lparr>id_num = 7, date = ''20141013T000000'', bedrooms = 3, bathrooms = 1,
      sqft_living = 1180, sqft_lot = 5650, floors = 1, waterfront = 0, view = 0,
      condition = 3, grade = 7, sqft_above = 1180, sqft_basement = 0, yr_built = 1955,
      yr_renovated = 0, zipcode = 98178, lat = 47, long = - 122, Mean_Income = 57321,
      Education_Bachelors_or_Higher = 21, Population_Density = 3774\<rparr>"

definition toy_body :: "string \<rightharpoonup> val" where
  "toy_body = map_of (HouseData_dict toy_house)"

definition toy_features :: row where
  "toy_features =
     HouseData_dict toy_house @
       [(''date_dt'', TimestampV 2014), (''house_age'', IntV 59),
        (''time_since_renovation'', IntV 59), (''was_renovated'', IntV 0),
        (''total_rooms'', FloatV 4),
        (''sqft_per_room'', FloatV (1180 / (4 + 1 / 10 ^ 6)))]"

definition toy_extra :: "string \<rightharpoonup> val" where
  "toy_extra = [''comment'' \<mapsto> StrV ''sold fast'', ''price'' \<mapsto> IntV 5]"

text \<open>The installation with one record pending and a dataset whose last line has no newline.\<close>

definition toy_unterminated :: "toy_model state" where
  "toy_unterminated = toy_pending1\<lparr>dataset_file := Some (''price'' @ [CHR 0x0A] @ ''1'')\<rparr>"

text \<open>One record pending and the processed training file missing.\<close>

definition toy_no_train_files :: "toy_model state" where
  "toy_no_train_files = toy_pending1\<lparr>train_processed_file := None\<rparr>"

text \<open>An installation where \<^verbatim>\<open>joblib.load\<close> raises on every file.\<close>

definition toy_env_load_fails :: "(string list, toy_model) env" where
  "toy_env_load_fails = toy_env\<lparr>joblib_load := (\<lambda>b. None)\<rparr>"

text \<open>Where the two cycles that miss a failure leave the service.\<close>

definition toy_archived_unretrained :: "toy_model state" where
  "toy_archived_unretrained =
     toy_state\<lparr>feedback_dir := Some [],
               archive_dir := Some [(''feedback_20250309120005_7.json'', ''{house1}'')],
               train_processed_file := None\<rparr>"

definition toy_reload_masked :: "toy_model state" where
  "toy_reload_masked =
     toy_state\<lparr>feedback_dir := Some [],
               archive_dir := Some [(''feedback_20250309120005_7.json'', ''{house1}'')],
               model_file := Some ''model-v2'', metrics_file := Some ''{metrics2}'',
               model_metrics := metrics_not_found\<rparr>"

text \<open>
  The running service after a trainer run: version 2 on disk with its metrics, and the
  same with a metrics file cut short.
\<close>

definition toy_retrained_files :: "toy_model state" where
  "toy_retrained_files =
     toy_state\<lparr>model_file := Some ''model-v2'', metrics_file := Some ''{metrics2}''\<rparr>"

definition toy_metrics_truncated :: "toy_model state" where
  "toy_metrics_truncated =
     toy_state\<lparr>model_file := Some ''model-v2'', metrics_file := Some ''{metr''\<rparr>"

text \<open>An installation whose hyperparameter search raises.\<close>

definition toy_env_fit_fails :: "(string list, toy_model) env" where
  "toy_env_fit_fails = toy_env\<lparr>fit := (\<lambda>train_csv test_csv. None)\<rparr>"

text \<open>
  An installation whose model prices a house from its bedrooms, on top of the fitted
  constant; two records pending there, what the transform makes of them, and where a
  committed cycle leaves the service.
\<close>

definition toy_env_rooms :: "(string list, toy_model) env" where
  "toy_env_rooms =
     toy_env\<lparr>predict :=
       (\<lambda>m df. case m of ToyModel names y \<Rightarrow>
          (case map_of df ''bedrooms'' of
             Some (IntV b) \<Rightarrow> Some (y + ln (1 + 50 * real_of_int b))
           | _ \<Rightarrow> None))\<rparr>"

definition toy_pending_two :: "toy_model state" where
  "toy_pending_two =
     toy_state\<lparr>feedback_dir :=
       Some [(''feedback_20250309120005_7.json'', ''{house1}''),
             (''feedback_20250309120009_8.json'', ''{house3}'')]\<rparr>"

definition toy_rows_two :: "row list" where
  "toy_rows_two =
     [FeedbackData_dict house1 @
        [(''date_dt'', TimestampV 2014), (''house_age'', IntV 59),
         (''time_since_renovation'', IntV 59), (''was_renovated'', IntV 0),
         (''total_rooms'', FloatV 4),
         (''sqft_per_room'', FloatV (1180 / (4 + 1 / 10 ^ 6)))],
      FeedbackData_dict house3 @
        [(''date_dt'', TimestampV 2014), (''house_age'', IntV 59),
         (''time_since_renovation'', IntV 59), (''was_renovated'', IntV 0),
         (''total_rooms'', FloatV 3),
         (''sqft_per_room'', FloatV (1180 / (3 + 1 / 10 ^ 6)))]]"

definition toy_committed_two :: "toy_model state" where
  "toy_committed_two =
     toy_state\<lparr>feedback_dir := Some [],
               archive_dir :=
                 Some [(''feedback_20250309120005_7.json'', ''{house1}''),
                       (''feedback_20250309120009_8.json'', ''{house3}'')],
               model_file := Some ''model-v2'', metrics_file := Some ''{metrics2}'',
               model := Some (ToyModel (Some toy_schema) 1),
               model_metrics := metrics2\<rparr>"

lemmas toy_defs =
  toy_env_def toy_state_def toy_json_load_def toy_json_dump_def toy_joblib_load_def
  toy_csv_line_def toy_schema_def metrics1_def metrics2_def house1_def house2_def
  house3_def

section \<open>The feedback store overwrites on a repeated key\<close>

lemma receive_feedback_Inr:
  assumes "receive_feedback e now d st = (Inr f, st')"
  shows "f = ''data/feedback_local/'' @ feedback_file_name now (id_num d)"
    and "feedback_dir st' =
           Some (AList.update (feedback_file_name now (id_num d))
                   (json_dump e (FeedbackData_dict d))
                   (case feedback_dir st of None \<Rightarrow> [] | Some fs \<Rightarrow> fs))"
  using assms by (auto simp: receive_feedback_def Let_def split: if_splits)

lemma toy_first_submission:
  "receive_feedback toy_env noon house1 toy_state =
     (Inr ''data/feedback_local/feedback_20250309120005_7.json'', toy_pending1)"
  by (simp add: receive_feedback_def toy_defs feedback_file_name_def strftime_def
      noon_def zero_pad_def str_int_def digit_char_def toy_pending1_def
      FeedbackData_dict_def HouseData_dict_def Let_def)

lemma toy_second_submission:
  "receive_feedback toy_env noon_later house2 toy_pending1 =
     (Inr ''data/feedback_local/feedback_20250309120005_7.json'', toy_pending2)"
  by (simp add: receive_feedback_def toy_defs feedback_file_name_def strftime_def
      noon_def noon_later_def zero_pad_def str_int_def digit_char_def toy_pending1_def
      toy_pending2_def FeedbackData_dict_def HouseData_dict_def Let_def)

text \<open>
  C10. Two accepted submissions with the same id whose timestamps agree down to the
  second get the same file path; the second replaces the content written by the first,
  no file is added, and the directory holds exactly one record under that name.
\<close>

theorem same_second_same_id_overwrites:
  assumes sid: "id_num d1 = id_num d2"
    and ss: "year t1 = year t2" "month t1 = month t2" "day t1 = day t2"
            "hour t1 = hour t2" "minute t1 = minute t2" "second t1 = second t2"
    and wf: "case feedback_dir st of None \<Rightarrow> True | Some fs \<Rightarrow> distinct (map fst fs)"
    and r1: "receive_feedback e t1 d1 st = (Inr f1, st1)"
    and r2: "receive_feedback e t2 d2 st1 = (Inr f2, st2)"
  shows "f2 = f1 \<and>
         (\<exists>files1 files2.
            feedback_dir st1 = Some files1 \<and> feedback_dir st2 = Some files2 \<and>
            map fst files2 = map fst files1 \<and> distinct (map fst files2) \<and>
            map_of files1 (feedback_file_name t1 (id_num d1)) =
              Some (json_dump e (FeedbackData_dict d1)) \<and>
            map_of files2 (feedback_file_name t1 (id_num d1)) =
              Some (json_dump e (FeedbackData_dict d2)) \<and>
            (\<forall>n. n \<noteq> feedback_file_name t1 (id_num d1) \<longrightarrow> map_of files2 n = map_of files1 n))"
proof -
  let ?n = "feedback_file_name t1 (id_num d1)"
  have same: "feedback_file_name t2 (id_num d2) = ?n"
    using sid ss by (simp add: feedback_file_name_def strftime_def)
  define files0 where "files0 = (case feedback_dir st of None \<Rightarrow> [] | Some fs \<Rightarrow> fs)"
  define files1 where "files1 = AList.update ?n (json_dump e (FeedbackData_dict d1)) files0"
  define files2 where "files2 = AList.update ?n (json_dump e (FeedbackData_dict d2)) files1"
  have d0: "distinct (map fst files0)"
    using wf by (simp add: files0_def split: option.splits)
  have s1: "feedback_dir st1 = Some files1"
    using receive_feedback_Inr(2)[OF r1] by (simp add: files1_def files0_def)
  have s2: "feedback_dir st2 = Some files2"
    using receive_feedback_Inr(2)[OF r2] s1 same by (simp add: files2_def)
  have mem: "?n \<in> set (map fst files1)"
    by (simp add: files1_def update_keys)
  have keys: "map fst files2 = map fst files1"
    using mem by (simp add: files2_def update_keys)
  have d2: "distinct (map fst files2)"
    using d0 by (simp add: files2_def files1_def distinct_update)
  have m1: "map_of files1 ?n = Some (json_dump e (FeedbackData_dict d1))"
    by (simp add: files1_def update_conv')
  have m2: "map_of files2 ?n = Some (json_dump e (FeedbackData_dict d2))"
    by (simp add: files2_def update_conv')
  have rest: "\<forall>n. n \<noteq> ?n \<longrightarrow> map_of files2 n = map_of files1 n"
    by (simp add: files2_def update_conv')
  have "f2 = f1"
    using receive_feedback_Inr(1)[OF r1] receive_feedback_Inr(1)[OF r2] same by simp
  with s1 s2 keys d2 m1 m2 rest show ?thesis by blast
qed

theorem same_second_same_id_overwrites_witness:
  "id_num house1 = id_num house2 \<and> second noon = second noon_later \<and>
   nanosecond noon \<noteq> nanosecond noon_later \<and>
   ground_truth_price house1 \<noteq> ground_truth_price house2 \<and>
   receive_feedback toy_env noon house1 toy_state =
     (Inr ''data/feedback_local/feedback_20250309120005_7.json'', toy_pending1) \<and>
   receive_feedback toy_env noon_later house2 toy_pending1 =
     (Inr ''data/feedback_local/feedback_20250309120005_7.json'', toy_pending2) \<and>
   feedback_dir toy_pending1 = Some [(''feedback_20250309120005_7.json'', ''{house1}'')] \<and>
   feedback_dir toy_pending2 = Some [(''feedback_20250309120005_7.json'', ''{house2}'')] \<and>
   (\<exists>files1 files2.
      feedback_dir toy_pending1 = Some files1 \<and> feedback_dir toy_pending2 = Some files2 \<and>
      map fst files2 = map fst files1 \<and> distinct (map fst files2))"
proof -
  have sid: "id_num house1 = id_num house2"
    by (simp add: house1_def house2_def)
  have wf: "case feedback_dir toy_state of None \<Rightarrow> True | Some fs \<Rightarrow> distinct (map fst fs)"
    by (simp add: toy_state_def)
  have "\<exists>files1 files2.
      feedback_dir toy_pending1 = Some files1 \<and> feedback_dir toy_pending2 = Some files2 \<and>
      map fst files2 = map fst files1 \<and> distinct (map fst files2)"
    using same_second_same_id_overwrites [OF sid _ _ _ _ _ _ wf
        toy_first_submission toy_second_submission, of ]
    by (simp add: noon_later_def) blast
  then show ?thesis
    using sid toy_first_submission toy_second_submission
    by (simp add: noon_def noon_later_def house1_def house2_def toy_pending1_def
        toy_pending2_def)
qed


section \<open>Evaluating the concrete installation\<close>

lemma toy_pending_feedback1: "pending_feedback toy_env toy_pending1 = [FeedbackData_dict house1]"
  by (simp add: pending_feedback_def toy_pending1_def toy_defs read_feedback_def
      list_feedback_files_def endswith_def List.map_filter_def)

lemma toy_pending_feedback2: "pending_feedback toy_env toy_pending2 = [FeedbackData_dict house2]"
  by (simp add: pending_feedback_def toy_pending2_def toy_defs read_feedback_def
      list_feedback_files_def endswith_def List.map_filter_def)

lemma toy_engineer_features:
  "engineer_features toy_env (FeedbackData_dict (house1\<lparr>ground_truth_price := g\<rparr>)) =
     Some (FeedbackData_dict (house1\<lparr>ground_truth_price := g\<rparr>) @
           [(''date_dt'', TimestampV 2014), (''house_age'', IntV 59),
            (''time_since_renovation'', IntV 59), (''was_renovated'', IntV 0),
            (''total_rooms'', FloatV 4),
            (''sqft_per_room'', FloatV (1180 / (4 + 1 / 10 ^ 6)))])"
  by (simp add: engineer_features_def FeedbackData_dict_def HouseData_dict_def toy_defs
      date_features_def vsub_def vadd_def int_arith_def in_int64_def wrap64_def vdiv_def veq0_def
      vgt0_def where_val_def Let_def)

lemma toy_predict_row:
  "predict_row toy_env st (FeedbackData_dict (house1\<lparr>ground_truth_price := g\<rparr>)) =
     (case model st of None \<Rightarrow> None | Some (ToyModel s y) \<Rightarrow> Some (exp y - 1))"
  unfolding predict_row_def toy_engineer_features
  by (simp add: toy_env_def expm1_def split: option.splits toy_model.splits)

lemma toy_truth_and_prediction:
  "truth_and_prediction toy_env st (FeedbackData_dict (house1\<lparr>ground_truth_price := g\<rparr>)) =
     (case model st of None \<Rightarrow> None | Some (ToyModel s y) \<Rightarrow> Some (FloatV g, exp y - 1))"
  unfolding truth_and_prediction_def toy_predict_row
  by (simp add: FeedbackData_dict_def HouseData_dict_def split: option.splits toy_model.splits)

lemma house1_truth: "house1 = house1\<lparr>ground_truth_price := 100\<rparr>"
  by (simp add: house1_def)

lemma toy_evaluate1:
  "model st = Some (ToyModel s 0) \<Longrightarrow> evaluate toy_env st [FeedbackData_dict house1] = Some 1"
  unfolding evaluate_def
  apply (subst house1_truth)
  apply (simp add: toy_truth_and_prediction)
  apply (simp add: mean_absolute_percentage_error_def float_eps_def)
  done

lemma toy_evaluate2:
  "model st = Some (ToyModel s 0) \<Longrightarrow> evaluate toy_env st [FeedbackData_dict house2] = Some 0"
  unfolding evaluate_def house2_def
  by (simp add: toy_truth_and_prediction) (simp add: mean_absolute_percentage_error_def)

lemma toy_model_loaded:
  "model toy_pending1 = Some (ToyModel (Some toy_schema) 0)"
  "model toy_pending2 = Some (ToyModel (Some toy_schema) 0)"
  by (simp_all add: toy_pending1_def toy_pending2_def toy_state_def)

section \<open>No breach, no mutation\<close>

text \<open>
  C6. When no readable feedback is pending, or the aggregate error over the pending
  feedback is at most the threshold, \<^verbatim>\<open>check_model_performance\<close> answers with
  \<open>retrain_triggered = False\<close> and leaves the whole state, the dataset file included,
  exactly as it was.
\<close>

theorem no_breach_no_mutation:
  assumes "pending_feedback e st = [] \<or>
           (\<exists>m. evaluate e st (pending_feedback e st) = Some m \<and> m \<le> ERROR_THRESHOLD_MAPE)"
  shows "(\<exists>r. check_model_performance e st = (Inr r, st) \<and> \<not> retrain_triggered r) \<and>
         dataset_file (snd (check_model_performance e st)) = dataset_file st"
proof -
  have "\<exists>r. check_model_performance e st = (Inr r, st) \<and> \<not> retrain_triggered r"
  proof (cases "feedback_dir st")
    case None
    then show ?thesis by (simp add: check_model_performance_def)
  next
    case (Some files)
    show ?thesis
    proof (cases "list_feedback_files files = []")
      case True
      then show ?thesis using Some by (simp add: check_model_performance_def)
    next
      case nonempty: False
      show ?thesis
      proof (cases "read_feedback e files (list_feedback_files files) = []")
        case True
        then show ?thesis using Some nonempty by (simp add: check_model_performance_def)
      next
        case False
        then obtain m where
          "evaluate e st (read_feedback e files (list_feedback_files files)) = Some m"
          "m \<le> ERROR_THRESHOLD_MAPE"
          using assms Some by (auto simp: pending_feedback_def)
        then show ?thesis using Some nonempty False
          by (simp add: check_model_performance_def)
      qed
    qed
  qed
  then show ?thesis by auto
qed

theorem no_breach_no_mutation_witness:
  "pending_feedback toy_env toy_pending2 = [FeedbackData_dict house2] \<and>
   evaluate toy_env toy_pending2 (pending_feedback toy_env toy_pending2) = Some 0 \<and>
   (0 :: real) \<le> ERROR_THRESHOLD_MAPE \<and>
   (\<exists>r. check_model_performance toy_env toy_pending2 = (Inr r, toy_pending2) \<and>
        \<not> retrain_triggered r) \<and>
   dataset_file (snd (check_model_performance toy_env toy_pending2)) =
     Some (''price'' @ [CHR 0x0A] @ ''1'' @ [CHR 0x0A])"
proof -
  have ev: "evaluate toy_env toy_pending2 (pending_feedback toy_env toy_pending2) = Some 0"
    by (simp add: toy_pending_feedback2 toy_evaluate2 [OF toy_model_loaded(2)])
  have le: "(0 :: real) \<le> ERROR_THRESHOLD_MAPE"
    by (simp add: ERROR_THRESHOLD_MAPE_def)
  have "pending_feedback toy_env toy_pending2 = [] \<or>
        (\<exists>m. evaluate toy_env toy_pending2 (pending_feedback toy_env toy_pending2) = Some m \<and>
             m \<le> ERROR_THRESHOLD_MAPE)"
    using ev le by blast
  from no_breach_no_mutation [OF this] ev le toy_pending_feedback2
  show ?thesis by (simp add: toy_pending2_def toy_state_def)
qed


section \<open>The breach rule\<close>

lemma toy_cycle_commits:
  "run_full_retrain_cycle toy_env toy_pending1 =
     (Returned (NewMetrics (Some metrics2)), toy_committed)"
  by (simp add: run_full_retrain_cycle_def retrain_try_def retrain_finally_def train_def
      load_model_safely_def load_handler_def toy_pending1_def toy_defs read_feedback_def
      list_feedback_files_def endswith_def List.map_filter_def Let_def unlines_def
      rename_col_def FeedbackData_dict_def HouseData_dict_def str_int_def digit_char_def
      toy_committed_def)

lemma those_length: "those xs = Some ys \<Longrightarrow> length ys = length xs"
  by (induction xs arbitrary: ys) (auto split: option.splits)

lemma evaluate_unfolded:
  assumes "those (map (\<lambda>d. Option.bind (map_of d ''ground_truth_price'') numeric) fd) = Some ts"
      and "those (map (predict_row e st) fd) = Some ps"
  shows "those (map (truth_and_prediction e st) fd) \<bind>
           (\<lambda>pairs. those (map (\<lambda>(t, p). numeric t) pairs) \<bind>
              (\<lambda>y_true. Some (f y_true (map snd pairs)))) = Some (f ts ps)"
  using assms
proof (induction fd arbitrary: ts ps f)
  case Nil
  then show ?case by simp
next
  case (Cons d fd)
  from Cons.prems obtain t ts' p ps' tv where
    d: "map_of d ''ground_truth_price'' = Some tv" "numeric tv = Some t"
       "predict_row e st d = Some p"
    and rest: "those (map (\<lambda>d. Option.bind (map_of d ''ground_truth_price'') numeric) fd) = Some ts'"
       "those (map (predict_row e st) fd) = Some ps'"
    and eqs: "ts = t # ts'" "ps = p # ps'"
    by (auto split: option.splits bind_splits)
  from Cons.IH [OF rest, of "\<lambda>a b. f (t # a) (p # b)"]
  show ?case using d eqs
    by (auto simp: truth_and_prediction_def split: option.splits bind_splits)
qed

lemma mape_textbook:
  assumes len: "length ps = length ts" and nz: "\<forall>t\<in>set ts. float_eps \<le> \<bar>t\<bar>"
  shows "mean_absolute_percentage_error ts ps = mape_spec ts ps"
proof -
  have "(\<Sum>(t, p) \<leftarrow> zip ts ps. \<bar>p - t\<bar> / max \<bar>t\<bar> float_eps) =
        (\<Sum>i = 0..<length (zip ts ps).
           (case zip ts ps ! i of (t, p) \<Rightarrow> \<bar>p - t\<bar> / max \<bar>t\<bar> float_eps))"
    by (simp add: sum_list_sum_nth)
  also have "\<dots> = (\<Sum>i = 0..<length ts. \<bar>ts ! i - ps ! i\<bar> / \<bar>ts ! i\<bar>)"
  proof (intro sum.cong refl)
    fix i assume "i \<in> {0..<length ts}"
    then have i: "i < length ts" by simp
    then have "float_eps \<le> \<bar>ts ! i\<bar>" using nz by simp
    then show "(case zip ts ps ! i of (t, p) \<Rightarrow> \<bar>p - t\<bar> / max \<bar>t\<bar> float_eps) =
               \<bar>ts ! i - ps ! i\<bar> / \<bar>ts ! i\<bar>"
      using i len by (simp add: max_def abs_minus_commute)
  qed (simp add: len)
  finally show ?thesis
    by (simp add: mean_absolute_percentage_error_def mape_spec_def lessThan_atLeast0)
qed

lemma predict_rows:
  assumes "model st = Some m"
      and "those (map (engineer_features e) fd) = Some vs"
      and "those (map (\<lambda>v. predict e m (reindex (model_features st) v)) vs) = Some ys"
  shows "those (map (predict_row e st) fd) = Some (map expm1 ys)"
  using assms(2,3)
proof (induction fd arbitrary: vs ys)
  case Nil
  then show ?case by simp
next
  case (Cons d fd)
  from Cons.prems(1) obtain v vs' where
    v: "engineer_features e d = Some v" "those (map (engineer_features e) fd) = Some vs'"
       "vs = v # vs'"
    by (auto split: option.splits)
  from Cons.prems(2) v(3) obtain y ys' where
    y: "predict e m (reindex (model_features st) v) = Some y"
       "those (map (\<lambda>v. predict e m (reindex (model_features st) v)) vs') = Some ys'"
       "ys = y # ys'"
    by (auto split: option.splits)
  have "predict_row e st d = Some (expm1 y)"
    using assms(1) v(1) y(1) by (simp add: predict_row_def)
  then show ?case
    using Cons.IH [OF v(2) y(2)] y(3) by simp
qed

text \<open>
  C7. For a non-empty set of readable pending records whose ground truths are numbers,
  whose feature transform succeeds and on whose reindexed rows the active model does not
  raise: the prediction for each record is \<^verbatim>\<open>expm1\<close> of the active model applied to
  the record's engineered row reindexed onto the active schema; the error computed by
  \<^verbatim>\<open>check_model_performance\<close> is scikit-learn's mean absolute percentage error of
  the ground truths against these predictions; it is the textbook mean of
  \<open>|t - p| / |t|\<close> whenever no ground truth is below the machine epsilon; the
  threshold is 0.15; and the retrain cycle runs exactly when the error is strictly
  greater than the threshold.
\<close>

theorem breach_rule:
  assumes fd: "pending_feedback e st = fd" "fd \<noteq> []"
      and m: "model st = Some m"
      and ts: "those (map (\<lambda>d. Option.bind (map_of d ''ground_truth_price'') numeric) fd) = Some ts"
      and vs: "those (map (engineer_features e) fd) = Some vs"
      and ys: "those (map (\<lambda>v. predict e m (reindex (model_features st) v)) vs) = Some ys"
  shows "those (map (predict_row e st) fd) = Some (map (\<lambda>y. exp y - 1) ys) \<and>
         evaluate e st fd =
           Some (mean_absolute_percentage_error ts (map (\<lambda>y. exp y - 1) ys)) \<and>
         ((\<forall>t\<in>set ts. float_eps \<le> \<bar>t\<bar>) \<longrightarrow>
            mean_absolute_percentage_error ts (map (\<lambda>y. exp y - 1) ys) =
            mape_spec ts (map (\<lambda>y. exp y - 1) ys)) \<and>
         ERROR_THRESHOLD_MAPE = 0.15 \<and>
         check_model_performance e st =
           (if mean_absolute_percentage_error ts (map (\<lambda>y. exp y - 1) ys) > ERROR_THRESHOLD_MAPE
            then (case run_full_retrain_cycle e st of
                    (Raised x, st') \<Rightarrow> (Inl (HTTPException 500 PerformanceError), st')
                  | (Returned result, st') \<Rightarrow>
                      (Inr \<lparr>retrain_triggered = True,
                            message = RetrainConcluded
                              (mean_absolute_percentage_error ts (map (\<lambda>y. exp y - 1) ys)),
                            current_mape_pct =
                              Some (mean_absolute_percentage_error ts (map (\<lambda>y. exp y - 1) ys)),
                            new_metrics = Some result\<rparr>, st'))
            else (Inr \<lparr>retrain_triggered = False,
                       message = PerformanceStable
                         (mean_absolute_percentage_error ts (map (\<lambda>y. exp y - 1) ys)),
                       current_mape_pct =
                         Some (mean_absolute_percentage_error ts (map (\<lambda>y. exp y - 1) ys)),
                       new_metrics = None\<rparr>, st))"
proof -
  define ps where "ps = map (\<lambda>y. exp y - 1) ys"
  have ps: "those (map (predict_row e st) fd) = Some ps"
    using predict_rows [OF m vs ys] by (simp add: ps_def expm1_def [abs_def])
  have ev: "evaluate e st fd = Some (mean_absolute_percentage_error ts ps)"
    unfolding evaluate_def by (rule evaluate_unfolded [OF ts ps])
  have len: "length ps = length ts"
    using those_length [OF ts] those_length [OF ps] by simp
  obtain files where files: "feedback_dir st = Some files"
    "read_feedback e files (list_feedback_files files) = fd"
    using fd by (auto simp: pending_feedback_def split: option.splits)
  have ne: "list_feedback_files files \<noteq> []"
    using files fd(2) by (auto simp: read_feedback_def List.map_filter_def)
  have chk: "check_model_performance e st =
           (if mean_absolute_percentage_error ts ps > ERROR_THRESHOLD_MAPE
            then (case run_full_retrain_cycle e st of
                    (Raised x, st') \<Rightarrow> (Inl (HTTPException 500 PerformanceError), st')
                  | (Returned result, st') \<Rightarrow>
                      (Inr \<lparr>retrain_triggered = True,
                            message = RetrainConcluded (mean_absolute_percentage_error ts ps),
                            current_mape_pct = Some (mean_absolute_percentage_error ts ps),
                            new_metrics = Some result\<rparr>, st'))
            else (Inr \<lparr>retrain_triggered = False,
                       message = PerformanceStable (mean_absolute_percentage_error ts ps),
                       current_mape_pct = Some (mean_absolute_percentage_error ts ps),
                       new_metrics = None\<rparr>, st))"
    using files ne fd(2) ev by (simp add: check_model_performance_def)
  show ?thesis
    using ps ev chk mape_textbook [OF len]
    unfolding ps_def by (simp add: ERROR_THRESHOLD_MAPE_def)
qed

lemma toy_pending_feedback_two:
  "pending_feedback toy_env_rooms toy_pending_two =
     [FeedbackData_dict house1, FeedbackData_dict house3]"
  by (simp add: pending_feedback_def toy_pending_two_def toy_env_rooms_def toy_defs
      read_feedback_def list_feedback_files_def endswith_def List.map_filter_def)

lemma toy_rows_two_engineered:
  "those (map (engineer_features toy_env_rooms)
            [FeedbackData_dict house1, FeedbackData_dict house3]) = Some toy_rows_two"
  by (simp add: engineer_features_def FeedbackData_dict_def HouseData_dict_def
      toy_env_rooms_def toy_defs toy_rows_two_def date_features_def vsub_def vadd_def
      int_arith_def in_int64_def wrap64_def vdiv_def veq0_def vgt0_def where_val_def Let_def)

lemma toy_rows_two_reindexed:
  "map (reindex (Some toy_schema)) toy_rows_two =
     [[(''bedrooms'', IntV 3), (''house_age'', IntV 59), (''total_rooms'', FloatV 4),
       (''zip_median'', FloatV 0)],
      [(''bedrooms'', IntV 2), (''house_age'', IntV 59), (''total_rooms'', FloatV 3),
       (''zip_median'', FloatV 0)]]"
  by (simp add: reindex_def toy_rows_two_def toy_schema_def FeedbackData_dict_def
      HouseData_dict_def house1_def house3_def fillna0_def)

lemma toy_cycle_two_commits:
  "run_full_retrain_cycle toy_env_rooms toy_pending_two =
     (Returned (NewMetrics (Some metrics2)), toy_committed_two)"
  by (simp add: run_full_retrain_cycle_def retrain_try_def retrain_finally_def train_def
      load_model_safely_def load_handler_def toy_pending_two_def toy_env_rooms_def toy_defs
      read_feedback_def list_feedback_files_def endswith_def List.map_filter_def Let_def
      unlines_def rename_col_def FeedbackData_dict_def HouseData_dict_def str_int_def
      digit_char_def toy_committed_two_def)

theorem breach_rule_witness:
  "pending_feedback toy_env_rooms toy_pending_two =
     [FeedbackData_dict house1, FeedbackData_dict house3] \<and>
   model toy_pending_two = Some (ToyModel (Some toy_schema) 0) \<and>
   those (map (\<lambda>d. Option.bind (map_of d ''ground_truth_price'') numeric)
            [FeedbackData_dict house1, FeedbackData_dict house3]) = Some [100, 120] \<and>
   those (map (engineer_features toy_env_rooms)
            [FeedbackData_dict house1, FeedbackData_dict house3]) = Some toy_rows_two \<and>
   those (map (\<lambda>v. predict toy_env_rooms (ToyModel (Some toy_schema) 0)
                    (reindex (model_features toy_pending_two) v)) toy_rows_two) =
     Some [ln 151, ln 101] \<and>
   those (map (predict_row toy_env_rooms toy_pending_two)
            [FeedbackData_dict house1, FeedbackData_dict house3]) = Some [150, 100] \<and>
   mean_absolute_percentage_error [100, 120] [150, 100] = 1 / 3 \<and>
   mape_spec [100, 120] [150, 100] = 1 / 3 \<and>
   evaluate toy_env_rooms toy_pending_two
     [FeedbackData_dict house1, FeedbackData_dict house3] = Some (1 / 3) \<and>
   check_model_performance toy_env_rooms toy_pending_two =
     (Inr \<lparr>retrain_triggered = True, message = RetrainConcluded (1 / 3),
           current_mape_pct = Some (1 / 3),
           new_metrics = Some (NewMetrics (Some metrics2))\<rparr>, toy_committed_two)"
proof -
  have m: "model toy_pending_two = Some (ToyModel (Some toy_schema) 0)"
    by (simp add: toy_pending_two_def toy_state_def)
  have ts: "those (map (\<lambda>d. Option.bind (map_of d ''ground_truth_price'') numeric)
                     [FeedbackData_dict house1, FeedbackData_dict house3]) = Some [100, 120]"
    by (simp add: FeedbackData_dict_def HouseData_dict_def house1_def house3_def)
  have sch: "model_features toy_pending_two = Some toy_schema"
    by (simp add: toy_pending_two_def toy_state_def)
  have ys: "those (map (\<lambda>v. predict toy_env_rooms (ToyModel (Some toy_schema) 0)
                    (reindex (model_features toy_pending_two) v)) toy_rows_two) =
     Some [ln 151, ln 101]"
    using toy_rows_two_reindexed
    by (simp add: sch toy_rows_two_def toy_env_rooms_def)
  have mape: "mean_absolute_percentage_error [100, 120] [150, 100] = 1 / 3"
    by (simp add: mean_absolute_percentage_error_def float_eps_def)
  have mape': "mape_spec [100, 120] [150, 100] = 1 / 3"
    by (simp add: mape_spec_def lessThan_Suc numeral_2_eq_2)
  note inst = breach_rule [OF toy_pending_feedback_two _ m ts toy_rows_two_engineered ys]
  from inst have ps: "those (map (predict_row toy_env_rooms toy_pending_two)
            [FeedbackData_dict house1, FeedbackData_dict house3]) = Some [150, 100]"
    by simp
  from inst have ev: "evaluate toy_env_rooms toy_pending_two
     [FeedbackData_dict house1, FeedbackData_dict house3] = Some (1 / 3)"
    by (simp add: mape)
  from inst have chk: "check_model_performance toy_env_rooms toy_pending_two =
     (Inr \<lparr>retrain_triggered = True, message = RetrainConcluded (1 / 3),
           current_mape_pct = Some (1 / 3),
           new_metrics = Some (NewMetrics (Some metrics2))\<rparr>, toy_committed_two)"
    by (simp add: mape toy_cycle_two_commits ERROR_THRESHOLD_MAPE_def)
  show ?thesis
    using toy_pending_feedback_two m ts toy_rows_two_engineered ys ps mape mape' ev chk
    by simp
qed


section \<open>Prediction\<close>

lemma reindex_keys: "map fst (reindex (Some cs) df) = cs"
  by (simp add: reindex_def comp_def)

lemma reindex_lookup:
  "c \<in> set cs \<Longrightarrow> map_of (reindex (Some cs) df) c =
     Some (case map_of df c of None \<Rightarrow> FloatV 0 | Some v \<Rightarrow> fillna0 v)"
  by (simp add: reindex_def map_of_map_restrict)

lemma reindex_drop:
  assumes "fst ` set w \<inter> set cs = {}"
  shows "reindex (Some cs) (df @ w) = reindex (Some cs) df"
proof -
  have "\<And>c. c \<in> set cs \<Longrightarrow> map_of (df @ w) c = map_of df c"
  proof -
    fix c assume "c \<in> set cs"
    then have "c \<notin> fst ` set w" using assms by auto
    then have "map_of w c = None" by (simp add: map_of_eq_None_iff)
    then show "map_of (df @ w) c = map_of df c"
      by (simp add: map_add_def split: option.splits) 
  qed
  then show ?thesis by (simp add: reindex_def)
qed

lemma validate_ignores_extra:
  assumes "dom extra \<inter> set HouseData_fields = {}"
  shows "validate_HouseData e (body ++ extra) = validate_HouseData e body"
proof -
  have k: "\<And>k. k \<in> set HouseData_fields \<Longrightarrow> (body ++ extra) k = body k"
    using assms by (auto simp: map_add_def split: option.splits)
  show ?thesis
    unfolding validate_HouseData_def
    by (simp add: k HouseData_fields_def)
qed

text \<open>
  C8. For a request body that validates as \<^verbatim>\<open>HouseData\<close>, with a model and schema
  loaded and a model call that does not raise, the returned price is \<^verbatim>\<open>expm1\<close> of
  the model applied to the engineered row reindexed onto the schema: the reindexed row
  has exactly the schema's columns in order, a schema column missing from the row (or
  NaN there) is zero, columns outside the schema do not matter, and keys of the body
  that \<^verbatim>\<open>HouseData\<close> does not declare change nothing.
\<close>

theorem predict_formula:
  assumes valid: "validate_HouseData e body = Some data"
      and m: "model st = Some m" and sch: "model_features st = Some schema"
      and ef: "engineer_features e (HouseData_dict data) = Some v"
      and y: "predict e m (reindex (Some schema) v) = Some y"
  shows "post_predict e st body = Handled (predict_price e st data) \<and>
         (\<exists>r. predict_price e st data = Inr r \<and> predicted_price r = expm1 y) \<and>
         expm1 y = exp y - 1 \<and>
         map fst (reindex (Some schema) v) = schema \<and>
         (\<forall>c\<in>set schema. map_of (reindex (Some schema) v) c =
             Some (case map_of v c of None \<Rightarrow> FloatV 0 | Some x \<Rightarrow> fillna0 x)) \<and>
         (\<forall>w. fst ` set w \<inter> set schema = {} \<longrightarrow>
             reindex (Some schema) (v @ w) = reindex (Some schema) v) \<and>
         (\<forall>extra. dom extra \<inter> set HouseData_fields = {} \<longrightarrow>
             post_predict e st (body ++ extra) = post_predict e st body)"
proof -
  have pr: "predict_row e st (HouseData_dict data) = Some (expm1 y)"
    using m sch ef y by (simp add: predict_row_def)
  have pp: "\<exists>r. predict_price e st data = Inr r \<and> predicted_price r = expm1 y"
    using m pr by (simp add: predict_price_def)
  have post: "post_predict e st body = Handled (predict_price e st data)"
    using valid by (simp add: post_predict_def)
  have extra: "\<forall>extra. dom extra \<inter> set HouseData_fields = {} \<longrightarrow>
             post_predict e st (body ++ extra) = post_predict e st body"
    by (simp add: post_predict_def validate_ignores_extra)
  show ?thesis
    using pp post extra reindex_keys reindex_lookup reindex_drop
    by (simp add: expm1_def)
qed

lemma toy_validate: "validate_HouseData toy_env toy_body = Some toy_house"
  by (simp add: validate_HouseData_def toy_body_def toy_house_def HouseData_dict_def toy_env_def)

lemma toy_house_features: "engineer_features toy_env (HouseData_dict toy_house) = Some toy_features"
  by (simp add: engineer_features_def HouseData_dict_def toy_house_def toy_env_def toy_features_def
      date_features_def vsub_def vadd_def int_arith_def in_int64_def wrap64_def vdiv_def veq0_def
      vgt0_def where_val_def Let_def)

lemma toy_reindexed:
  "reindex (Some toy_schema) toy_features =
     [(''bedrooms'', IntV 3), (''house_age'', IntV 59), (''total_rooms'', FloatV 4),
      (''zip_median'', FloatV 0)]"
  by (simp add: reindex_def toy_schema_def toy_features_def HouseData_dict_def toy_house_def fillna0_def)

theorem predict_formula_witness:
  "validate_HouseData toy_env toy_body = Some toy_house \<and>
   engineer_features toy_env (HouseData_dict toy_house) = Some toy_features \<and>
   reindex (Some toy_schema) toy_features =
     [(''bedrooms'', IntV 3), (''house_age'', IntV 59), (''total_rooms'', FloatV 4),
      (''zip_median'', FloatV 0)] \<and>
   predict toy_env (ToyModel (Some toy_schema) 0) (reindex (Some toy_schema) toy_features) = Some 0 \<and>
   (\<exists>r. post_predict toy_env toy_state toy_body = Handled (Inr r) \<and> predicted_price r = 0) \<and>
   dom toy_extra = {''comment'', ''price''} \<and>
   post_predict toy_env toy_state (toy_body ++ toy_extra) =
   post_predict toy_env toy_state toy_body"
proof -
  have m: "model toy_state = Some (ToyModel (Some toy_schema) 0)"
   and sch: "model_features toy_state = Some toy_schema"
    by (simp_all add: toy_state_def)
  have y: "predict toy_env (ToyModel (Some toy_schema) 0) (reindex (Some toy_schema) toy_features) = Some 0"
    by (simp add: toy_env_def)
  have dom: "dom toy_extra = {''comment'', ''price''}"
    by (auto simp: toy_extra_def)
  have disj: "dom toy_extra \<inter> set HouseData_fields = {}"
    unfolding dom by (simp add: HouseData_fields_def)
  note inst = predict_formula [OF toy_validate m sch toy_house_features y]
  from inst have a: "\<exists>r. post_predict toy_env toy_state toy_body = Handled (Inr r) \<and> predicted_price r = 0"
    by (auto simp: expm1_def)
  from inst disj have b: "post_predict toy_env toy_state (toy_body ++ toy_extra) =
     post_predict toy_env toy_state toy_body"
    by blast
  show ?thesis
    using a b dom toy_validate toy_house_features toy_reindexed y by simp
qed


section \<open>The retrain cycle restores the dataset\<close>

lemma retrain_finally_restores:
  assumes "\<not> faults e RestoreDataset" "\<not> faults e RemoveTemp"
  shows "fst (retrain_finally e df r st) = r \<and>
         dataset_file (snd (retrain_finally e df r st)) = Some (to_csv e df) \<and>
         temp_file (snd (retrain_finally e df r st)) = None"
  using assms by (simp add: retrain_finally_def Let_def)

text \<open>
  C1, as amended. Provided the restoring write and the removal of the temporary
  file do not themselves fault: a cycle that stops before the swap (dataset unreadable,
  no \<^verbatim>\<open>.json\<close> file, temporary file not written) leaves the whole state untouched;
  every other cycle, whatever the trainer, the reload and the archiving did, returns a
  value, ends with the dataset holding \<open>to_csv\<close> of the frame read at the start, and
  with no temporary file. The content is byte-identical to the content before the cycle
  when that content is what \<open>to_csv\<close> writes for the frame read from it.
\<close>

theorem cycle_restores_dataset:
  assumes "\<not> faults e RestoreDataset" "\<not> faults e RemoveTemp"
  shows "case Option.bind (dataset_file st) (read_csv e) of
           None \<Rightarrow> snd (run_full_retrain_cycle e st) = st
         | Some original_df \<Rightarrow>
             if json_files st = [] \<or> faults e WriteTemp
             then snd (run_full_retrain_cycle e st) = st
             else (\<exists>v. fst (run_full_retrain_cycle e st) = Returned v) \<and>
                  dataset_file (snd (run_full_retrain_cycle e st)) = Some (to_csv e original_df) \<and>
                  temp_file (snd (run_full_retrain_cycle e st)) = None \<and>
                  (dataset_file st = Some (to_csv e original_df) \<longrightarrow>
                     dataset_file (snd (run_full_retrain_cycle e st)) = dataset_file st)"
proof (cases "Option.bind (dataset_file st) (read_csv e)")
  case None
  then show ?thesis by (simp add: run_full_retrain_cycle_def)
next
  case (Some df)
  show ?thesis
  proof (cases "json_files st = [] \<or> faults e WriteTemp")
    case True
    then show ?thesis using Some
      by (auto simp: run_full_retrain_cycle_def json_files_def Let_def split: option.splits)
  next
    case False
    then obtain files where files: "feedback_dir st = Some files" "list_feedback_files files \<noteq> []"
      and wt: "\<not> faults e WriteTemp"
      by (auto simp: json_files_def split: option.splits)
    define st1 where "st1 = st\<lparr>temp_file := Some (to_csv e (concat_rows e df
        (map (rename_col ''ground_truth_price'' ''price'')
           (read_feedback e files (list_feedback_files files)))))\<rparr>"
    obtain r st2 where t: "retrain_try e (list_feedback_files files) st1 = (r, st2)"
      by (cases "retrain_try e (list_feedback_files files) st1")
    define caught where "caught = (case r of Raised x \<Rightarrow> Returned (ErrorDict (ExcMessage x))
                                       | Returned v \<Rightarrow> Returned v)"
    have run: "run_full_retrain_cycle e st = retrain_finally e df caught st2"
      using Some files wt t
      by (simp add: run_full_retrain_cycle_def Let_def st1_def caught_def)
    have "\<exists>v. caught = Returned v"
      by (cases r) (simp_all add: caught_def)
    then show ?thesis
      using Some False run retrain_finally_restores [OF assms, of df caught st2]
      by simp
  qed
qed

lemma toy_cycle_unterminated:
  "run_full_retrain_cycle toy_env toy_unterminated =
     (Returned (NewMetrics (Some metrics2)), toy_committed)"
  by (simp add: run_full_retrain_cycle_def retrain_try_def retrain_finally_def train_def
      load_model_safely_def load_handler_def toy_pending1_def toy_defs read_feedback_def
      list_feedback_files_def endswith_def List.map_filter_def Let_def unlines_def
      rename_col_def FeedbackData_dict_def HouseData_dict_def str_int_def digit_char_def
      toy_committed_def toy_unterminated_def)

text \<open>
  C1 as stated fails: the restore is a re-serialisation of the parsed frame, not a
  copy of the bytes. A dataset whose last line lacks the newline comes back with one.
\<close>

theorem cycle_rewrites_dataset_counterexample:
  "dataset_file toy_unterminated = Some (''price'' @ [CHR 0x0A] @ ''1'') \<and>
   fst (run_full_retrain_cycle toy_env toy_unterminated) = Returned (NewMetrics (Some metrics2)) \<and>
   dataset_file (snd (run_full_retrain_cycle toy_env toy_unterminated)) =
     Some (''price'' @ [CHR 0x0A] @ ''1'' @ [CHR 0x0A]) \<and>
   dataset_file (snd (run_full_retrain_cycle toy_env toy_unterminated)) \<noteq>
     dataset_file toy_unterminated"
  by (simp add: toy_cycle_unterminated)
     (simp add: toy_unterminated_def toy_committed_def toy_state_def toy_pending1_def)

theorem cycle_restores_dataset_witness:
  "\<not> faults toy_env RestoreDataset \<and> \<not> faults toy_env RemoveTemp \<and>
   \<not> faults toy_env WriteTemp \<and>
   Option.bind (dataset_file toy_pending1) (read_csv toy_env) = Some [''price'', ''1''] \<and>
   json_files toy_pending1 = [''feedback_20250309120005_7.json''] \<and>
   to_csv toy_env [''price'', ''1''] = ''price'' @ [CHR 0x0A] @ ''1'' @ [CHR 0x0A] \<and>
   dataset_file (snd (run_full_retrain_cycle toy_env toy_pending1)) = dataset_file toy_pending1 \<and>
   temp_file (snd (run_full_retrain_cycle toy_env toy_pending1)) = None"
proof -
  have f: "\<not> faults toy_env RestoreDataset" "\<not> faults toy_env RemoveTemp" "\<not> faults toy_env WriteTemp"
    by (simp_all add: toy_env_def)
  have rd: "Option.bind (dataset_file toy_pending1) (read_csv toy_env) = Some [''price'', ''1'']"
    by (simp add: toy_pending1_def toy_state_def toy_env_def)
  have js: "json_files toy_pending1 = [''feedback_20250309120005_7.json'']"
    by (simp add: json_files_def toy_pending1_def toy_state_def list_feedback_files_def endswith_def)
  have wr: "to_csv toy_env [''price'', ''1''] = ''price'' @ [CHR 0x0A] @ ''1'' @ [CHR 0x0A]"
    by (simp add: toy_env_def unlines_def)
  have ds: "dataset_file toy_pending1 = Some (''price'' @ [CHR 0x0A] @ ''1'' @ [CHR 0x0A])"
    by (simp add: toy_pending1_def toy_state_def)
  from cycle_restores_dataset [OF f(1) f(2), of toy_pending1]
  have "dataset_file (snd (run_full_retrain_cycle toy_env toy_pending1)) = dataset_file toy_pending1 \<and>
        temp_file (snd (run_full_retrain_cycle toy_env toy_pending1)) = None"
    unfolding rd by (simp add: js f wr ds)
  then show ?thesis using f rd js wr by simp
qed


section \<open>Failures the cycle does not notice\<close>

lemma predict_row_joblib_irrelevant:
  "predict_row (e\<lparr>joblib_load := f\<rparr>) st r = predict_row e st r"
proof -
  have d: "date_features (e\<lparr>joblib_load := f\<rparr>) = date_features e"
    by (intro ext) (simp add: date_features_def split: val.splits)
  have a: "vadd (e\<lparr>joblib_load := f\<rparr>) = vadd e"
    by (intro ext) (simp add: vadd_def int_arith_def split: val.splits)
  have b: "vsub (e\<lparr>joblib_load := f\<rparr>) = vsub e"
    by (intro ext) (simp add: vsub_def int_arith_def split: val.splits)
  have ef: "engineer_features (e\<lparr>joblib_load := f\<rparr>) r = engineer_features e r"
    unfolding engineer_features_def d a b by (rule refl)
  show ?thesis
    unfolding predict_row_def ef by simp
qed

lemma evaluate_joblib_irrelevant:
  "evaluate (e\<lparr>joblib_load := f\<rparr>) st fd = evaluate e st fd"
proof -
  have "truth_and_prediction (e\<lparr>joblib_load := f\<rparr>) st = truth_and_prediction e st"
    by (rule ext) (simp add: truth_and_prediction_def predict_row_joblib_irrelevant)
  then show ?thesis by (simp add: evaluate_def)
qed

lemma pending_joblib_irrelevant:
  "pending_feedback (e\<lparr>joblib_load := f\<rparr>) st = pending_feedback e st"
  by (simp add: pending_feedback_def read_feedback_def split: option.splits)

lemma check_unfolded:
  assumes "pending_feedback e st = fd" "fd \<noteq> []" "evaluate e st fd = Some m"
    "m > ERROR_THRESHOLD_MAPE" "run_full_retrain_cycle e st = (Returned result, st')"
  shows "check_model_performance e st =
           (Inr \<lparr>retrain_triggered = True, message = RetrainConcluded m,
                 current_mape_pct = Some m, new_metrics = Some result\<rparr>, st')"
proof -
  obtain files where files: "feedback_dir st = Some files"
    "read_feedback e files (list_feedback_files files) = fd"
    using assms(1,2) by (auto simp: pending_feedback_def split: option.splits)
  have ne: "list_feedback_files files \<noteq> []"
    using files assms(2) by (auto simp: read_feedback_def List.map_filter_def)
  show ?thesis
    using files ne assms by (simp add: check_model_performance_def)
qed

lemmas cycle_defs =
  run_full_retrain_cycle_def retrain_try_def retrain_finally_def train_def
  load_model_safely_def load_handler_def read_feedback_def
  list_feedback_files_def endswith_def List.map_filter_def Let_def unlines_def
  rename_col_def FeedbackData_dict_def HouseData_dict_def str_int_def digit_char_def

lemma toy_cycle_no_train_files:
  "run_full_retrain_cycle toy_env toy_no_train_files =
     (Returned (NewMetrics None), toy_archived_unretrained)"
  by (simp add: cycle_defs toy_no_train_files_def toy_pending1_def toy_defs
      toy_archived_unretrained_def)

text \<open>
  C2 at a failing input. The processed training file is missing, so \<^verbatim>\<open>train\<close> logs
  the error and returns \<^verbatim>\<open>None\<close>. The cycle does not look at the returned value:
  it reloads the artifact already on disk, moves the pending record to the archive and
  answers that the retrain concluded.
\<close>

theorem trainer_returns_none_still_archives:
  "train toy_env toy_no_train_files = (Returned None, toy_no_train_files) \<and>
   feedback_dir toy_no_train_files =
     Some [(''feedback_20250309120005_7.json'', ''{house1}'')] \<and>
   archive_dir toy_no_train_files = None \<and>
   check_model_performance toy_env toy_no_train_files =
     (Inr \<lparr>retrain_triggered = True, message = RetrainConcluded 1,
           current_mape_pct = Some 1, new_metrics = Some (NewMetrics None)\<rparr>,
      toy_archived_unretrained) \<and>
   feedback_dir toy_archived_unretrained = Some [] \<and>
   archive_dir toy_archived_unretrained =
     Some [(''feedback_20250309120005_7.json'', ''{house1}'')]"
proof -
  have p: "pending_feedback toy_env toy_no_train_files = [FeedbackData_dict house1]"
    using toy_pending_feedback1
    by (simp add: pending_feedback_def toy_no_train_files_def)
  have m: "model toy_no_train_files = Some (ToyModel (Some toy_schema) 0)"
    by (simp add: toy_no_train_files_def toy_model_loaded)
  have c: "check_model_performance toy_env toy_no_train_files =
     (Inr \<lparr>retrain_triggered = True, message = RetrainConcluded 1,
           current_mape_pct = Some 1, new_metrics = Some (NewMetrics None)\<rparr>,
      toy_archived_unretrained)"
    by (rule check_unfolded [OF p _ toy_evaluate1 [OF m] _ toy_cycle_no_train_files])
       (simp_all add: ERROR_THRESHOLD_MAPE_def)
  have t: "train toy_env toy_no_train_files = (Returned None, toy_no_train_files)"
    by (simp add: train_def toy_no_train_files_def toy_env_def)
  show ?thesis using c t
    by (simp add: toy_no_train_files_def toy_pending1_def toy_state_def toy_archived_unretrained_def)
qed

lemma toy_cycle_load_fails:
  "run_full_retrain_cycle toy_env_load_fails toy_pending1 =
     (Returned (NewMetrics (Some metrics2)), toy_reload_masked)"
  by (simp add: cycle_defs toy_env_load_fails_def toy_pending1_def toy_defs toy_reload_masked_def)

text \<open>
  C3 at a failing input. The trainer succeeds and the reload raises, but a model is
  already in memory, so \<^verbatim>\<open>load_model_safely\<close> returns \<^verbatim>\<open>True\<close>: the answer
  carries the new metrics and no error, the record is archived, and the service keeps
  the previous model under the placeholder margin.
\<close>

theorem reload_failure_reported_as_success:
  "Option.bind (model_file toy_reload_masked) (joblib_load toy_env_load_fails) = None \<and>
   check_model_performance toy_env_load_fails toy_pending1 =
     (Inr \<lparr>retrain_triggered = True, message = RetrainConcluded 1,
           current_mape_pct = Some 1,
           new_metrics = Some (NewMetrics (Some metrics2))\<rparr>, toy_reload_masked) \<and>
   model toy_reload_masked = model toy_pending1 \<and>
   archive_dir toy_reload_masked =
     Some [(''feedback_20250309120005_7.json'', ''{house1}'')]"
proof -
  have p: "pending_feedback toy_env_load_fails toy_pending1 = [FeedbackData_dict house1]"
    by (simp add: toy_env_load_fails_def pending_joblib_irrelevant toy_pending_feedback1)
  have e: "evaluate toy_env_load_fails toy_pending1 [FeedbackData_dict house1] = Some 1"
    by (simp add: toy_env_load_fails_def evaluate_joblib_irrelevant
          toy_evaluate1 [OF toy_model_loaded(1)])
  have c: "check_model_performance toy_env_load_fails toy_pending1 =
     (Inr \<lparr>retrain_triggered = True, message = RetrainConcluded 1,
           current_mape_pct = Some 1,
           new_metrics = Some (NewMetrics (Some metrics2))\<rparr>, toy_reload_masked)"
    by (rule check_unfolded [OF p _ e _ toy_cycle_load_fails])
       (simp_all add: ERROR_THRESHOLD_MAPE_def)
  show ?thesis using c
    by (simp add: toy_reload_masked_def toy_pending1_def toy_state_def toy_env_load_fails_def
         toy_env_def)
qed


section \<open>Loading the model\<close>

text \<open>
  C4, as amended. \<^verbatim>\<open>load_model_safely\<close> assigns the three globals one after the
  other. When artifact, schema and metrics all load, all three are the new version's and
  the load reports success. When artifact and schema load and the metrics do not, the
  load still reports success, with the new model and schema and the placeholder margin.
  When the artifact cannot be loaded, the model and schema in memory stay as they were.
\<close>

theorem load_model_safely_cases:
  "(\<forall>m names mt.
      Option.bind (model_file st) (joblib_load e) = Some m \<longrightarrow>
      feature_names_in e m = Some names \<longrightarrow>
      Option.bind (metrics_file st) (json_load e) = Some mt \<longrightarrow>
      load_model_safely e st =
        (True, st\<lparr>model := Some m, model_features := Some names, model_metrics := mt\<rparr>)) \<and>
   (\<forall>m names.
      Option.bind (model_file st) (joblib_load e) = Some m \<longrightarrow>
      feature_names_in e m = Some names \<longrightarrow>
      Option.bind (metrics_file st) (json_load e) = None \<longrightarrow>
      load_model_safely e st =
        (True, st\<lparr>model := Some m, model_features := Some names,
                   model_metrics := metrics_not_found\<rparr>)) \<and>
   (Option.bind (model_file st) (joblib_load e) = None \<longrightarrow>
      model (snd (load_model_safely e st)) = model st \<and>
      model_features (snd (load_model_safely e st)) = model_features st)"
  by (simp add: load_model_safely_def load_handler_def Let_def)

text \<open>
  C4 as stated fails: with the new artifact on disk and an unreadable metrics file the
  load reports success, yet the triple is neither the new version's nor the previous one.
\<close>

theorem load_not_atomic_counterexample:
  "model toy_metrics_truncated = Some (ToyModel (Some toy_schema) 0) \<and>
   model_metrics toy_metrics_truncated = metrics1 \<and>
   load_model_safely toy_env toy_metrics_truncated =
     (True, toy_metrics_truncated\<lparr>model := Some (ToyModel (Some toy_schema) 1),
                                  model_metrics := metrics_not_found\<rparr>) \<and>
   metrics_not_found \<noteq> metrics1 \<and> metrics_not_found \<noteq> metrics2"
  by (simp add: load_model_safely_def load_handler_def Let_def toy_metrics_truncated_def
      toy_defs metrics_not_found_def)

theorem load_model_safely_cases_witness:
  "load_model_safely toy_env toy_retrained_files =
     (True, toy_retrained_files\<lparr>model := Some (ToyModel (Some toy_schema) 1),
                                model_features := Some toy_schema,
                                model_metrics := metrics2\<rparr>) \<and>
   load_model_safely toy_env toy_metrics_truncated =
     (True, toy_metrics_truncated\<lparr>model := Some (ToyModel (Some toy_schema) 1),
                                  model_features := Some toy_schema,
                                  model_metrics := metrics_not_found\<rparr>) \<and>
   Option.bind (model_file toy_state) (joblib_load toy_env_load_fails) = None \<and>
   model (snd (load_model_safely toy_env_load_fails toy_state)) =
     Some (ToyModel (Some toy_schema) 0) \<and>
   model_features (snd (load_model_safely toy_env_load_fails toy_state)) = Some toy_schema"
proof -
  have a1: "Option.bind (model_file toy_retrained_files) (joblib_load toy_env) =
              Some (ToyModel (Some toy_schema) 1)"
   and a2: "feature_names_in toy_env (ToyModel (Some toy_schema) 1) = Some toy_schema"
   and a3: "Option.bind (metrics_file toy_retrained_files) (json_load toy_env) = Some metrics2"
    by (simp_all add: toy_retrained_files_def toy_state_def toy_env_def toy_joblib_load_def
        toy_json_load_def)
  have b1: "Option.bind (model_file toy_metrics_truncated) (joblib_load toy_env) =
              Some (ToyModel (Some toy_schema) 1)"
   and b3: "Option.bind (metrics_file toy_metrics_truncated) (json_load toy_env) = None"
    by (simp_all add: toy_metrics_truncated_def toy_state_def toy_env_def toy_joblib_load_def
        toy_json_load_def)
  have c1: "Option.bind (model_file toy_state) (joblib_load toy_env_load_fails) = None"
    by (simp add: toy_env_load_fails_def toy_state_def toy_env_def)
  have c2: "model toy_state = Some (ToyModel (Some toy_schema) 0)"
    "model_features toy_state = Some toy_schema"
    by (simp_all add: toy_state_def)
  show ?thesis
    using load_model_safely_cases [of toy_retrained_files toy_env]
      load_model_safely_cases [of toy_metrics_truncated toy_env]
      load_model_safely_cases [of toy_state toy_env_load_fails]
      a1 a2 a3 b1 b3 c1 c2
    by simp
qed


section \<open>Feedback records through a cycle\<close>

lemma kept_cong:
  "feedback_dir st' = feedback_dir st \<Longrightarrow> archive_dir st' = archive_dir st \<Longrightarrow>
   kept pending st' = kept pending st"
  by (simp add: kept_def)

lemma kept_initial:
  assumes "feedback_dir st = Some pending" "distinct (map fst pending)"
  shows "kept pending st"
  using assms by (auto simp: kept_def)

lemma kept_move:
  assumes k: "kept pending0 st"
    and d: "feedback_dir st = Some pending" "archive_dir st = Some archived"
    and f: "map_of pending f = Some content"
  shows "kept pending0 (st\<lparr>feedback_dir := Some (AList.delete f pending),
                           archive_dir := Some (AList.update f content archived)\<rparr>)"
  using k d f unfolding kept_def
  by (fastforce simp: delete_conv' update_conv')

lemma move_files_kept:
  "kept pending0 st \<Longrightarrow> kept pending0 (snd (move_files e fs st))"
proof (induction fs arbitrary: st)
  case Nil
  then show ?case by simp
next
  case (Cons f fs)
  show ?case
  proof (cases "faults e (RenameFeedback f)")
    case True
    then show ?thesis using Cons.prems by simp
  next
    case nf: False
    show ?thesis
    proof (cases "feedback_dir st")
      case None
      then show ?thesis using Cons.prems nf by simp
    next
      case (Some pending)
      note p = this
      show ?thesis
      proof (cases "archive_dir st")
        case None
        then show ?thesis using Cons.prems nf p by simp
      next
        case (Some archived)
        note a = this
        show ?thesis
        proof (cases "map_of pending f")
          case None
          then show ?thesis using Cons.prems nf p a by simp
        next
          case (Some content)
          from Cons.IH [OF kept_move [OF Cons.prems p a Some]]
          show ?thesis using nf p a Some by simp
        qed
      qed
    qed
  qed
qed

lemma move_files_exn:
  "move_files e fs st = (Some x, st') \<Longrightarrow>
     x = FileNotFoundError \<or> (\<exists>f. x = OSError (RenameFeedback f))"
  by (induction fs arbitrary: st) (auto split: if_splits option.splits)

lemma train_dirs:
  "feedback_dir (snd (train e st)) = feedback_dir st \<and>
   archive_dir (snd (train e st)) = archive_dir st"
  by (simp add: train_def Let_def split: option.splits prod.splits)

lemma train_exn:
  "train e st = (Raised x, st') \<Longrightarrow>
     x \<noteq> FileNotFoundError \<and> (\<forall>f. x \<noteq> OSError (RenameFeedback f))"
  by (auto simp: train_def Let_def split: option.splits prod.splits if_splits)

lemma load_dirs:
  "feedback_dir (snd (load_model_safely e st)) = feedback_dir st \<and>
   archive_dir (snd (load_model_safely e st)) = archive_dir st"
  by (simp add: load_model_safely_def load_handler_def Let_def split: option.splits)


lemma retrain_try_shape:
  fixes st :: "'m state" and e :: "('df, 'm) env"
  defines "st1 \<equiv> st\<lparr>dataset_file := temp_file st, temp_file := None\<rparr>"
  defines "st2 \<equiv> snd (train e st1)"
  defines "st3 \<equiv> snd (load_model_safely e st2)"
  defines "st4 \<equiv> st3\<lparr>archive_dir := Some (case archive_dir st3 of None \<Rightarrow> [] | Some a \<Rightarrow> a)\<rparr>"
  shows "retrain_try e fs st = (Raised (OSError ReplaceDataset), st) \<or>
         retrain_try e fs st = (Raised FileNotFoundError, st) \<or>
         (\<exists>x. train e st1 = (Raised x, st2) \<and> retrain_try e fs st = (Raised x, st2)) \<or>
         retrain_try e fs st = (Returned (ErrorDict ReloadFailed), st3) \<or>
         retrain_try e fs st = (Raised (OSError MkArchiveDir), st3) \<or>
         (\<exists>x. move_files e fs st4 = (Some x, snd (move_files e fs st4)) \<and>
              retrain_try e fs st = (Raised x, snd (move_files e fs st4))) \<or>
         (\<exists>nm. retrain_try e fs st = (Returned (NewMetrics nm), snd (move_files e fs st4)))"
proof (cases "faults e ReplaceDataset")
  case True
  then show ?thesis by (simp add: retrain_try_def)
next
  case nr: False
  show ?thesis
  proof (cases "temp_file st = None")
    case True
    then show ?thesis using nr by (simp add: retrain_try_def)
  next
    case nt: False
    obtain r2 s2 where tr: "train e st1 = (r2, s2)" by (cases "train e st1")
    then have s2: "s2 = st2" by (simp add: st2_def)
    show ?thesis
    proof (cases r2)
      case (Raised x)
      then show ?thesis using nr nt tr s2
        by (simp add: retrain_try_def Let_def st1_def [symmetric])
    next
      case (Returned nm)
      obtain b s3 where ld: "load_model_safely e st2 = (b, s3)"
        by (cases "load_model_safely e st2")
      then have s3: "s3 = st3" by (simp add: st3_def)
      show ?thesis
      proof (cases b)
        case False
        then show ?thesis using nr nt tr s2 Returned ld s3
          by (simp add: retrain_try_def Let_def st1_def [symmetric])
      next
        case True
        show ?thesis
        proof (cases "faults e MkArchiveDir")
          case True
          then show ?thesis using nr nt tr s2 Returned ld s3 \<open>b\<close>
            by (simp add: retrain_try_def Let_def st1_def [symmetric])
        next
          case na: False
          obtain mx s5 where mv: "move_files e fs st4 = (mx, s5)"
            by (cases "move_files e fs st4")
          show ?thesis
          proof (cases mx)
            case None
            then show ?thesis using nr nt tr s2 Returned ld s3 \<open>b\<close> na mv
              by (simp add: retrain_try_def Let_def st1_def [symmetric] st4_def [symmetric])
          next
            case (Some x)
            then show ?thesis using nr nt tr s2 Returned ld s3 \<open>b\<close> na mv
              by (simp add: retrain_try_def Let_def st1_def [symmetric] st4_def [symmetric])
          qed
        qed
      qed
    qed
  qed
qed

lemma retrain_try_kept:
  assumes "kept pending0 st"
  shows "kept pending0 (snd (retrain_try e fs st))"
proof -
  define st1 where "st1 = st\<lparr>dataset_file := temp_file st, temp_file := None\<rparr>"
  define st2 where "st2 = snd (train e st1)"
  define st3 where "st3 = snd (load_model_safely e st2)"
  define st4 where
    "st4 = st3\<lparr>archive_dir := Some (case archive_dir st3 of None \<Rightarrow> [] | Some a \<Rightarrow> a)\<rparr>"
  have k1: "kept pending0 st1" using assms by (simp add: kept_def st1_def)
  have k2: "kept pending0 st2"
    using k1 kept_cong [of st2 st1 pending0] by (simp add: st2_def train_dirs)
  have k3: "kept pending0 st3"
    using k2 kept_cong [of st3 st2 pending0] by (simp add: st3_def load_dirs)
  have k4: "kept pending0 st4"
    using k3 unfolding kept_def st4_def by (cases "archive_dir st3") auto
  have k5: "kept pending0 (snd (move_files e fs st4))"
    by (rule move_files_kept [OF k4])
  from retrain_try_shape [of e fs st]
  have "snd (retrain_try e fs st) = st \<or> snd (retrain_try e fs st) = st2 \<or>
        snd (retrain_try e fs st) = st3 \<or>
        snd (retrain_try e fs st) = snd (move_files e fs st4)"
    unfolding st1_def [symmetric] st2_def [symmetric] st3_def [symmetric] st4_def [symmetric]
    by (elim disjE exE conjE) simp_all
  then show ?thesis using assms k2 k3 k5 by (elim disjE) simp_all
qed

lemma retrain_try_unchanged:
  assumes run: "retrain_try e fs st = (r, st')"
    and cond: "r = Returned (ErrorDict m) \<or>
         (\<exists>x. r = Raised x \<and> x \<noteq> FileNotFoundError \<and> (\<forall>f. x \<noteq> OSError (RenameFeedback f)))"
  shows "feedback_dir st' = feedback_dir st \<and> archive_dir st' = archive_dir st"
proof -
  define st1 where "st1 = st\<lparr>dataset_file := temp_file st, temp_file := None\<rparr>"
  define st2 where "st2 = snd (train e st1)"
  define st3 where "st3 = snd (load_model_safely e st2)"
  define st4 where
    "st4 = st3\<lparr>archive_dir := Some (case archive_dir st3 of None \<Rightarrow> [] | Some a \<Rightarrow> a)\<rparr>"
  have d2: "feedback_dir st2 = feedback_dir st \<and> archive_dir st2 = archive_dir st"
    by (simp add: train_dirs st2_def st1_def)
  have d3: "feedback_dir st3 = feedback_dir st \<and> archive_dir st3 = archive_dir st"
    by (simp add: load_dirs st3_def d2)
  from retrain_try_shape [of e fs st]
  have "st' = st \<or> st' = st2 \<or> st' = st3"
    unfolding st1_def [symmetric] st2_def [symmetric] st3_def [symmetric] st4_def [symmetric]
    using run cond by (elim disjE exE conjE) (auto dest: move_files_exn)
  then show ?thesis using d2 d3 by (elim disjE) simp_all
qed

lemma retrain_finally_dirs:
  "feedback_dir (snd (retrain_finally e df r st)) = feedback_dir st \<and>
   archive_dir (snd (retrain_finally e df r st)) = archive_dir st"
  by (simp add: retrain_finally_def Let_def)

lemma retrain_finally_result:
  "fst (retrain_finally e df r st) = Returned v \<Longrightarrow> r = Returned v"
  by (auto simp: retrain_finally_def Let_def split: if_splits)

lemma cycle_kept:
  assumes "feedback_dir st = Some pending" "distinct (map fst pending)"
  shows "kept pending (snd (run_full_retrain_cycle e st))"
proof -
  have k0: "kept pending st" by (rule kept_initial [OF assms])
  have step: "kept pending (snd (retrain_finally e df r (snd (retrain_try e fs (st\<lparr>temp_file := t\<rparr>)))))"
    for df r fs t
  proof -
    have "kept pending (st\<lparr>temp_file := t\<rparr>)" using k0 by (simp add: kept_def)
    from retrain_try_kept [OF this]
    show ?thesis
      using kept_cong [of "snd (retrain_finally e df r (snd (retrain_try e fs (st\<lparr>temp_file := t\<rparr>))))"
                          "snd (retrain_try e fs (st\<lparr>temp_file := t\<rparr>))" pending]
      by (simp add: retrain_finally_dirs)
  qed
  show ?thesis
  proof (cases "Option.bind (dataset_file st) (read_csv e)")
    case None
    then show ?thesis using k0 by (simp add: run_full_retrain_cycle_def)
  next
    case (Some df)
    show ?thesis
    proof (cases "list_feedback_files pending = [] \<or> faults e WriteTemp")
      case True
      then show ?thesis using k0 Some assms(1)
        by (auto simp: run_full_retrain_cycle_def Let_def)
    next
      case False
      then show ?thesis using Some assms(1) step
        by (simp add: run_full_retrain_cycle_def Let_def split_beta)
    qed
  qed
qed

lemma cycle_error_unchanged:
  assumes run: "run_full_retrain_cycle e st = (Returned (ErrorDict m), st')"
    and m: "m \<noteq> ExcMessage FileNotFoundError" "\<forall>f. m \<noteq> ExcMessage (OSError (RenameFeedback f))"
  shows "feedback_dir st' = feedback_dir st \<and> archive_dir st' = archive_dir st"
proof (cases "Option.bind (dataset_file st) (read_csv e)")
  case None
  then show ?thesis using run by (simp add: run_full_retrain_cycle_def)
next
  case (Some df)
  show ?thesis
  proof (cases "feedback_dir st")
    case None
    then show ?thesis using run Some by (simp add: run_full_retrain_cycle_def)
  next
    case files: (Some files)
    show ?thesis
    proof (cases "list_feedback_files files = [] \<or> faults e WriteTemp")
      case True
      then show ?thesis using run Some files
        by (auto simp: run_full_retrain_cycle_def Let_def split: if_splits)
    next
      case False
      define st1 where "st1 = st\<lparr>temp_file := Some (to_csv e (concat_rows e df
        (map (rename_col ''ground_truth_price'' ''price'')
           (read_feedback e files (list_feedback_files files)))))\<rparr>"
      obtain r st2 where t: "retrain_try e (list_feedback_files files) st1 = (r, st2)"
        by (cases "retrain_try e (list_feedback_files files) st1")
      define caught where "caught = (case r of Raised x \<Rightarrow> Returned (ErrorDict (ExcMessage x))
                                       | Returned v \<Rightarrow> Returned v)"
      have run': "run_full_retrain_cycle e st = retrain_finally e df caught st2"
        using Some files False t
        by (simp add: run_full_retrain_cycle_def Let_def st1_def caught_def)
      have c: "caught = Returned (ErrorDict m)"
        using run run' retrain_finally_result [of e df caught st2 "ErrorDict m"] by simp
      have cond: "r = Returned (ErrorDict m) \<or>
         (\<exists>x. r = Raised x \<and> x \<noteq> FileNotFoundError \<and> (\<forall>f. x \<noteq> OSError (RenameFeedback f)))"
        using c m by (cases r) (auto simp: caught_def)
      have "feedback_dir st2 = feedback_dir st1 \<and> archive_dir st2 = archive_dir st1"
        by (rule retrain_try_unchanged [OF t cond])
      moreover have "st' = snd (retrain_finally e df caught st2)"
        using run run' by simp
      ultimately show ?thesis
        by (simp add: retrain_finally_dirs st1_def)
    qed
  qed
qed

lemma receive_feedback_others:
  "archive_dir (snd (receive_feedback e now d st)) = archive_dir st \<and>
   (\<forall>p n c. feedback_dir st = Some p \<longrightarrow> map_of p n = Some c \<longrightarrow>
      n \<noteq> feedback_file_name now (id_num d) \<longrightarrow>
      (\<exists>p'. feedback_dir (snd (receive_feedback e now d st)) = Some p' \<and> map_of p' n = Some c))"
  by (auto simp: receive_feedback_def Let_def update_conv')


text \<open>
  C9, as amended. A retrain cycle never deletes a pending record nor changes its
  content: every record pending before the cycle is afterwards still pending or in the
  archive, under its name and with its content. When the cycle returns an error other
  than a failed archiving rename, the pending and the archive directory are exactly as
  before, so the next trigger evaluates the same records. A submission leaves the
  archive and every record stored under another file name as they were.
\<close>

theorem pending_records_survive:
  assumes dir: "feedback_dir st = Some pending" and wf: "distinct (map fst pending)"
  shows "(\<forall>(n, c) \<in> set pending.
            (\<exists>p. feedback_dir (snd (run_full_retrain_cycle e st)) = Some p \<and> map_of p n = Some c) \<or>
            (\<exists>a. archive_dir (snd (run_full_retrain_cycle e st)) = Some a \<and> map_of a n = Some c)) \<and>
         (\<forall>m. fst (run_full_retrain_cycle e st) = Returned (ErrorDict m) \<longrightarrow>
              m \<noteq> ExcMessage FileNotFoundError \<longrightarrow>
              (\<forall>f. m \<noteq> ExcMessage (OSError (RenameFeedback f))) \<longrightarrow>
              feedback_dir (snd (run_full_retrain_cycle e st)) = feedback_dir st \<and>
              archive_dir (snd (run_full_retrain_cycle e st)) = archive_dir st \<and>
              pending_feedback e (snd (run_full_retrain_cycle e st)) = pending_feedback e st) \<and>
         (\<forall>now d.
            archive_dir (snd (receive_feedback e now d st)) = archive_dir st \<and>
            (\<forall>(n, c) \<in> set pending.
               n \<noteq> feedback_file_name now (id_num d) \<longrightarrow>
               (\<exists>p. feedback_dir (snd (receive_feedback e now d st)) = Some p \<and>
                    map_of p n = Some c)))"
proof (intro conjI)
  show "\<forall>(n, c) \<in> set pending.
            (\<exists>p. feedback_dir (snd (run_full_retrain_cycle e st)) = Some p \<and> map_of p n = Some c) \<or>
            (\<exists>a. archive_dir (snd (run_full_retrain_cycle e st)) = Some a \<and> map_of a n = Some c)"
    using cycle_kept [OF dir wf, of e] unfolding kept_def by fastforce
next
  show "\<forall>m. fst (run_full_retrain_cycle e st) = Returned (ErrorDict m) \<longrightarrow>
              m \<noteq> ExcMessage FileNotFoundError \<longrightarrow>
              (\<forall>f. m \<noteq> ExcMessage (OSError (RenameFeedback f))) \<longrightarrow>
              feedback_dir (snd (run_full_retrain_cycle e st)) = feedback_dir st \<and>
              archive_dir (snd (run_full_retrain_cycle e st)) = archive_dir st \<and>
              pending_feedback e (snd (run_full_retrain_cycle e st)) = pending_feedback e st"
  proof (intro allI impI)
    fix m
    assume r: "fst (run_full_retrain_cycle e st) = Returned (ErrorDict m)"
      and m: "m \<noteq> ExcMessage FileNotFoundError" "\<forall>f. m \<noteq> ExcMessage (OSError (RenameFeedback f))"
    from r have run: "run_full_retrain_cycle e st =
        (Returned (ErrorDict m), snd (run_full_retrain_cycle e st))"
      by (simp add: prod_eq_iff)
    from cycle_error_unchanged [OF run m]
    show "feedback_dir (snd (run_full_retrain_cycle e st)) = feedback_dir st \<and>
              archive_dir (snd (run_full_retrain_cycle e st)) = archive_dir st \<and>
              pending_feedback e (snd (run_full_retrain_cycle e st)) = pending_feedback e st"
      by (simp add: pending_feedback_def)
  qed
next
  have "map_of pending n = Some c" if "(n, c) \<in> set pending" for n c
    using that wf by simp
  then show "\<forall>now d.
            archive_dir (snd (receive_feedback e now d st)) = archive_dir st \<and>
            (\<forall>(n, c) \<in> set pending.
               n \<noteq> feedback_file_name now (id_num d) \<longrightarrow>
               (\<exists>p. feedback_dir (snd (receive_feedback e now d st)) = Some p \<and>
                    map_of p n = Some c))"
    using receive_feedback_others [of e _ _ st] dir by fastforce
qed

lemma toy_cycle_fit_fails:
  "run_full_retrain_cycle toy_env_fit_fails toy_pending1 =
     (Returned (ErrorDict (ExcMessage FitError)), toy_pending1)"
  by (simp add: cycle_defs toy_env_fit_fails_def toy_pending1_def toy_defs)

theorem pending_records_survive_witness:
  "feedback_dir toy_pending1 = Some [(''feedback_20250309120005_7.json'', ''{house1}'')] \<and>
   distinct (map fst [(''feedback_20250309120005_7.json'', ''{house1}'')]) \<and>
   archive_dir (snd (run_full_retrain_cycle toy_env toy_pending1)) =
     Some [(''feedback_20250309120005_7.json'', ''{house1}'')] \<and>
   fst (run_full_retrain_cycle toy_env_fit_fails toy_pending1) =
     Returned (ErrorDict (ExcMessage FitError)) \<and>
   feedback_dir (snd (run_full_retrain_cycle toy_env_fit_fails toy_pending1)) =
     feedback_dir toy_pending1 \<and>
   archive_dir (snd (run_full_retrain_cycle toy_env_fit_fails toy_pending1)) =
     archive_dir toy_pending1"
proof -
  have dir: "feedback_dir toy_pending1 =
               Some [(''feedback_20250309120005_7.json'', ''{house1}'')]"
    by (simp add: toy_pending1_def)
  have wf: "distinct (map fst [(''feedback_20250309120005_7.json'', ''{house1}'')])"
    by simp
  have r: "fst (run_full_retrain_cycle toy_env_fit_fails toy_pending1) =
             Returned (ErrorDict (ExcMessage FitError))"
    by (simp add: toy_cycle_fit_fails)
  from pending_records_survive [OF dir wf, of toy_env_fit_fails] r
  have "feedback_dir (snd (run_full_retrain_cycle toy_env_fit_fails toy_pending1)) =
          feedback_dir toy_pending1 \<and>
        archive_dir (snd (run_full_retrain_cycle toy_env_fit_fails toy_pending1)) =
          archive_dir toy_pending1"
    by simp
  then show ?thesis
    using dir r by (simp add: toy_cycle_commits toy_committed_def)
qed

text \<open>
  C9 as stated fails: a pending record is replaced in place by a later submission with
  the same id in the same second; its content is then in neither partition.
\<close>

theorem pending_record_overwritten_counterexample:
  "feedback_dir toy_pending1 = Some [(''feedback_20250309120005_7.json'', ''{house1}'')] \<and>
   fst (receive_feedback toy_env noon_later house2 toy_pending1) =
     Inr ''data/feedback_local/feedback_20250309120005_7.json'' \<and>
   feedback_dir (snd (receive_feedback toy_env noon_later house2 toy_pending1)) =
     Some [(''feedback_20250309120005_7.json'', ''{house2}'')] \<and>
   archive_dir (snd (receive_feedback toy_env noon_later house2 toy_pending1)) = None \<and>
   json_dump toy_env (FeedbackData_dict house1) \<noteq> json_dump toy_env (FeedbackData_dict house2)"
  by (simp add: toy_second_submission)
     (simp add: toy_pending1_def toy_pending2_def toy_state_def toy_env_def toy_json_dump_def
        FeedbackData_dict_def HouseData_dict_def house1_def house2_def)

end
